theory Spec2Isabelle
  imports Main "HOL-Library.Char_ord" "HOL-Library.List_Lexorder" "HOL-Library.Product_Lexorder"
begin

section \<open>Text: characters, whitespace, case folding\<close>

text \<open>
  Strings are lists of 8-bit characters and stand for Python strings of ASCII text: the
  length of a string is its number of characters, \<open>\s\<close> and \<open>str.strip\<close> use the
  whitespace characters of \<open>str.isspace\<close> below 128, \<open>\w\<close> is a letter, a digit or the
  underscore, and ignoring case folds \<open>A\<close>..\<open>Z\<close> onto \<open>a\<close>..\<open>z\<close>.
\<close>

definition code_point :: "char \<Rightarrow> nat" where
  "code_point c = of_char c"

definition is_space :: "char \<Rightarrow> bool" where
  "is_space c = ((9 \<le> code_point c \<and> code_point c \<le> 13) \<or> (28 \<le> code_point c \<and> code_point c \<le> 32))"

definition is_word :: "char \<Rightarrow> bool" where
  "is_word c = ((48 \<le> code_point c \<and> code_point c \<le> 57) \<or> (65 \<le> code_point c \<and> code_point c \<le> 90)
     \<or> code_point c = 95 \<or> (97 \<le> code_point c \<and> code_point c \<le> 122))"

definition casefold :: "char \<Rightarrow> nat" where
  "casefold c = (if 65 \<le> code_point c \<and> code_point c \<le> 90 then code_point c + 32 else code_point c)"

definition eq_ci :: "char \<Rightarrow> char \<Rightarrow> bool" where
  "eq_ci a b = (casefold a = casefold b)"

definition strip :: "string \<Rightarrow> string" where
  "strip s = rev (dropWhile is_space (rev (dropWhile is_space s)))"

definition startswith :: "string \<Rightarrow> string \<Rightarrow> bool" where
  "startswith s p = (take (length p) s = p)"

fun join_str :: "string \<Rightarrow> string list \<Rightarrow> string" where
  "join_str sep [] = []"
| "join_str sep [x] = x"
| "join_str sep (x # y # ys) = x @ sep @ join_str sep (y # ys)"

definition digit_char :: "nat \<Rightarrow> char" where
  "digit_char d = ''0123456789'' ! d"

function str_of_nat :: "nat \<Rightarrow> string" where
  "str_of_nat n = (if n < 10 then [digit_char n] else str_of_nat (n div 10) @ [digit_char (n mod 10)])"
  by pat_completeness auto
termination
  by (relation "measure id") auto

definition str_of_int :: "int \<Rightarrow> string" where
  "str_of_int i = (if i < 0 then CHR ''-'' # str_of_nat (nat (- i)) else str_of_nat (nat i))"

section \<open>Regular expressions as backtracking matchers\<close>

text \<open>
  A matcher maps a position (the character before it, and the input that remains) to the
  positions where a match of the expression can end, in the order the backtracking engine
  of \<open>re\<close> tries them. The character before the position is kept for \<open>\b\<close>.
\<close>

type_synonym pos = "char option \<times> string"
type_synonym matcher = "pos \<Rightarrow> pos list"

definition re_class :: "(char \<Rightarrow> bool) \<Rightarrow> matcher" where
  "re_class p q = (case snd q of [] \<Rightarrow> [] | c # cs \<Rightarrow> if p c then [(Some c, cs)] else [])"

definition re_empty :: matcher where
  "re_empty q = [q]"

definition re_seq :: "matcher \<Rightarrow> matcher \<Rightarrow> matcher" where
  "re_seq m1 m2 q = concat (map m2 (m1 q))"

text \<open>\<open>[class]*\<close>, greedy: the longest run first, then each shorter one.\<close>

fun re_star_class :: "(char \<Rightarrow> bool) \<Rightarrow> char option \<Rightarrow> string \<Rightarrow> pos list" where
  "re_star_class p prev [] = [(prev, [])]"
| "re_star_class p prev (c # cs) = (if p c then re_star_class p (Some c) cs else []) @ [(prev, c # cs)]"

text \<open>\<open>m{0,n}\<close>, greedy.\<close>

fun re_upto :: "nat \<Rightarrow> matcher \<Rightarrow> matcher" where
  "re_upto 0 m q = [q]"
| "re_upto (Suc n) m q = concat (map (re_upto n m) (m q)) @ [q]"

text \<open>The literal text that \<open>re.escape\<close> produces, matched ignoring case.\<close>

fun re_literal :: "string \<Rightarrow> matcher" where
  "re_literal [] = re_empty"
| "re_literal (x # xs) = re_seq (re_class (eq_ci x)) (re_literal xs)"

definition word_at :: "char option \<Rightarrow> bool" where
  "word_at c = (case c of None \<Rightarrow> False | Some x \<Rightarrow> is_word x)"

definition head_of :: "string \<Rightarrow> char option" where
  "head_of s = (case s of [] \<Rightarrow> None | c # _ \<Rightarrow> Some c)"

definition re_word_boundary :: matcher where
  "re_word_boundary q = (if word_at (fst q) \<noteq> word_at (head_of (snd q)) then [q] else [])"

definition re_neg_lookahead :: "matcher \<Rightarrow> matcher" where
  "re_neg_lookahead m q = (if m q = [] then [q] else [])"

text \<open>
  \<open>(?!(?:AUTHOR\b))([\w]{1,15})\<close>: the part of the pattern of \<open>process_data\<close> after
  the \<open>@\<close>.
\<close>

definition other_username :: "string \<Rightarrow> matcher" where
  "other_username author_username =
     re_seq (re_neg_lookahead (re_seq (re_literal author_username) re_word_boundary))
       (re_seq (re_class is_word) (re_upto 14 (re_class is_word)))"

text \<open>
  \<open>reply_to_other_pattern = rf'^\s*@(?!(?:{re.escape(author_username)}\b))([\w]{{1,15}})'\<close>
\<close>

definition reply_to_other_pattern :: "string \<Rightarrow> matcher" where
  "reply_to_other_pattern author_username =
     re_seq (\<lambda>q. re_star_class is_space (fst q) (snd q))
       (re_seq (re_class (eq_ci (CHR ''@''))) (other_username author_username))"

text \<open>
  \<open>Series.str.contains(pattern, case=False, regex=True)\<close> on one string, for a pattern
  that starts with \<open>^\<close>: a search that can only succeed at the start of the string.
\<close>

definition str_contains :: "matcher \<Rightarrow> string \<Rightarrow> bool" where
  "str_contains m s = (m (None, s) \<noteq> [])"

section \<open>Tables\<close>

text \<open>
  A cell of a pandas table is missing (\<open>NaN\<close>), a string or an integer. A row gives the
  cell of every column label; a table lists its column labels and its rows. A row of a
  table is read only at the labels of the table: reading another label is a \<open>KeyError\<close>,
  which the functions below check before they read.
\<close>

datatype cell = NaN | Str string | Num int

type_synonym row = "string \<Rightarrow> cell"

record dataframe =
  columns :: "string list"
  rows :: "row list"

datatype error = KeyError string | Failure string

definition notna :: "cell \<Rightarrow> bool" where
  "notna c = (c \<noteq> NaN)"

text \<open>\<open>astype(str)\<close> and \<open>str()\<close> on one cell.\<close>

definition astype_str :: "cell \<Rightarrow> string" where
  "astype_str c = (case c of NaN \<Rightarrow> ''nan'' | Str s \<Rightarrow> s | Num i \<Rightarrow> str_of_int i)"

text \<open>\<open>fillna('')\<close> on one cell.\<close>

definition fillna_empty :: "cell \<Rightarrow> cell" where
  "fillna_empty c = (case c of NaN \<Rightarrow> Str [] | _ \<Rightarrow> c)"

text \<open>A Python dict literal with string keys, read at a key it has.\<close>

definition dict_row :: "(string \<times> cell) list \<Rightarrow> row" where
  "dict_row kvs c = (case map_of kvs c of Some v \<Rightarrow> v | None \<Rightarrow> NaN)"

definition TARGET_COLUMNS :: "string list" where
  "TARGET_COLUMNS =
    [''Processed Timestamp'', ''Original Username'', ''Original Display Name'',
     ''First Tweet Timestamp'', ''Combined Original Text'', ''First Tweet URL'',
     ''Likes (First Tweet)'', ''Retweets (First Tweet)'', ''Replies (First Tweet)'',
     ''Quotes (First Tweet)'', ''Bookmarks (First Tweet)'', ''Views (First Tweet)'',
     ''Content Type'',
     ''Conversation ID'',
     ''Rewritten EN'', ''Rewritten RU'',
     ''Source Row Count'',
     ''Platform'',
     ''Subreddit'', ''Score'', ''Num Comments'', ''Post ID'']"

section \<open>Consolidator: one group of \<open>process_data\<close>, step 3\<close>

text \<open>
  \<open>sort_values(by=...)\<close> on a column of strings: ascending, missing cells last. The
  sort of the model is stable.
\<close>

definition sort_cell_key :: "cell \<Rightarrow> bool \<times> string" where
  "sort_cell_key c = (case c of NaN \<Rightarrow> (True, []) | _ \<Rightarrow> (False, astype_str c))"

definition sort_values :: "string \<Rightarrow> row list \<Rightarrow> row list" where
  "sort_values col rs = sort_key (\<lambda>r. sort_cell_key (r col)) rs"

text \<open>
  \<open>group['Tweet Text'].str.contains(reply_to_other_pattern, case=False, na=False, regex=True)\<close>
  on one row.
\<close>

definition reply_to_other_mask :: "string \<Rightarrow> row \<Rightarrow> bool" where
  "reply_to_other_mask author_username r =
     (case r ''Tweet Text'' of Str s \<Rightarrow> str_contains (reply_to_other_pattern author_username) s
      | _ \<Rightarrow> False)"

definition core_thread_tweets :: "string \<Rightarrow> row list \<Rightarrow> row list" where
  "core_thread_tweets author_username grp =
     filter (\<lambda>r. \<not> reply_to_other_mask author_username r)
       (sort_values ''First Tweet Timestamp'' grp)"

definition thread_separator :: string where
  "thread_separator = [CHR 0x0A, CHR 0x0A] @ ''---'' @ [CHR 0x0A, CHR 0x0A]"

definition first_tweet_columns :: "string list" where
  "first_tweet_columns =
    [''Original Username'', ''Display Name'', ''First Tweet Timestamp'', ''First Tweet URL'',
     ''Likes (First Tweet)'', ''Retweets (First Tweet)'', ''Replies (First Tweet)'',
     ''Quotes (First Tweet)'', ''Bookmarks (First Tweet)'', ''Views (First Tweet)'']"

text \<open>The first label of \<open>names\<close> that the table does not have, in the order they are read.\<close>

definition first_missing :: "string list \<Rightarrow> string list \<Rightarrow> string option" where
  "first_missing cols names = find (\<lambda>c. c \<notin> set cols) names"

text \<open>
  The body of \<open>for name, group in grouped\<close>. \<open>cols\<close> are the labels of \<open>df_src\<close>,
  \<open>now\<close> is the formatted clock reading. The result is \<open>None\<close> for a group that is
  skipped, the row appended to \<open>processed_rows\<close> otherwise, and a \<open>KeyError\<close> when a
  column that is read is not in the table.
\<close>

definition consolidate_group ::
  "string \<Rightarrow> string \<Rightarrow> string list \<Rightarrow> string \<times> string \<Rightarrow> row list \<Rightarrow> error + row option" where
  "consolidate_group platform now cols name grp =
    (let username = fst name; conv_id = snd name in
     case first_missing cols [''First Tweet Timestamp'', ''Tweet Text''] of
       Some c \<Rightarrow> Inl (KeyError c)
     | None \<Rightarrow>
        (let core = core_thread_tweets username grp in
         if core = [] then Inr None
         else if length core > 1 then
           (let first_tweet = hd core;
                combined_text = join_str thread_separator (map (\<lambda>r. astype_str (r ''Tweet Text'')) core) in
            case first_missing cols first_tweet_columns of
              Some c \<Rightarrow> Inl (KeyError c)
            | None \<Rightarrow> Inr (Some (dict_row
               [(''Processed Timestamp'', Str now),
                (''Original Username'', first_tweet ''Original Username''),
                (''Original Display Name'', first_tweet ''Display Name''),
                (''First Tweet Timestamp'', first_tweet ''First Tweet Timestamp''),
                (''Combined Original Text'', Str combined_text),
                (''First Tweet URL'', first_tweet ''First Tweet URL''),
                (''Likes (First Tweet)'', first_tweet ''Likes (First Tweet)''),
                (''Retweets (First Tweet)'', first_tweet ''Retweets (First Tweet)''),
                (''Replies (First Tweet)'', first_tweet ''Replies (First Tweet)''),
                (''Quotes (First Tweet)'', first_tweet ''Quotes (First Tweet)''),
                (''Bookmarks (First Tweet)'', first_tweet ''Bookmarks (First Tweet)''),
                (''Views (First Tweet)'', first_tweet ''Views (First Tweet)''),
                (''Content Type'', Str ''Thread''),
                (''Conversation ID'', Str conv_id),
                (''Rewritten EN'', Str []),
                (''Rewritten RU'', Str []),
                (''Source Row Count'', Num (int (length core))),
                (''Platform'', Str platform),
                (''Subreddit'', Str []),
                (''Score'', Str []),
                (''Num Comments'', Str []),
                (''Post ID'', Str [])])))
         else
           (let single_tweet = hd core in
            case first_missing cols (first_tweet_columns @ [''Tweet Type'']) of
              Some c \<Rightarrow> Inl (KeyError c)
            | None \<Rightarrow> Inr (Some (dict_row
               [(''Processed Timestamp'', Str now),
                (''Original Username'', single_tweet ''Original Username''),
                (''Original Display Name'', single_tweet ''Display Name''),
                (''First Tweet Timestamp'', single_tweet ''First Tweet Timestamp''),
                (''Combined Original Text'', single_tweet ''Tweet Text''),
                (''First Tweet URL'', single_tweet ''First Tweet URL''),
                (''Likes (First Tweet)'', single_tweet ''Likes (First Tweet)''),
                (''Retweets (First Tweet)'', single_tweet ''Retweets (First Tweet)''),
                (''Replies (First Tweet)'', single_tweet ''Replies (First Tweet)''),
                (''Quotes (First Tweet)'', single_tweet ''Quotes (First Tweet)''),
                (''Bookmarks (First Tweet)'', single_tweet ''Bookmarks (First Tweet)''),
                (''Views (First Tweet)'', single_tweet ''Views (First Tweet)''),
                (''Content Type'', single_tweet ''Tweet Type''),
                (''Conversation ID'', Str conv_id),
                (''Rewritten EN'', Str []),
                (''Rewritten RU'', Str []),
                (''Source Row Count'', Num 1),
                (''Platform'', Str platform),
                (''Subreddit'', Str []),
                (''Score'', Str []),
                (''Num Comments'', Str []),
                (''Post ID'', Str [])])))))"

text \<open>The columns that the body of the loop reads from \<open>df_src\<close>.\<close>

definition consolidation_columns :: "string list" where
  "consolidation_columns = [''First Tweet Timestamp'', ''Tweet Text''] @ first_tweet_columns @ [''Tweet Type'']"

text \<open>
  The ownership rule in words: the text is whitespace, then \<open>@\<close>, then a name of 1 to 15
  word characters, and what follows the \<open>@\<close> is not the author's name ended by a word
  boundary (compared ignoring case).
\<close>

definition names_author :: "string \<Rightarrow> string \<Rightarrow> bool" where
  "names_author author s \<longleftrightarrow>
     (\<exists>m tail. s = m @ tail \<and> list_all2 eq_ci author m \<and>
        word_at (Some (last (CHR ''@'' # m))) \<noteq> word_at (head_of tail))"








section \<open>State Loader: \<open>load_processed_urls\<close>\<close>

definition df_empty :: "dataframe \<Rightarrow> bool" where
  "df_empty d = (columns d = [] \<or> rows d = [])"

definition required_cols :: "string list" where
  "required_cols = [''First Tweet URL'', ''Rewritten EN'', ''Rewritten RU'']"

text \<open>
  The mask of \<open>load_processed_urls\<close> on one row. The two rewrite columns have been
  converted with \<open>astype(str)\<close> before the mask is computed, the URL column has not.
\<close>

definition processed_mask :: "row \<Rightarrow> bool" where
  "processed_mask r =
     (notna (r ''First Tweet URL'') \<and>
      astype_str (r ''Rewritten EN'') \<noteq> [] \<and>
      astype_str (r ''Rewritten RU'') \<noteq> [] \<and>
      \<not> startswith (astype_str (r ''Rewritten EN'')) ''Error:'' \<and>
      \<not> startswith (astype_str (r ''Rewritten RU'')) ''Error:'')"

text \<open>
  \<open>load_processed_urls(df)\<close>. \<open>None\<close> is Python's \<open>None\<close>. The pandas operations of
  the \<open>try\<close> block do not raise on a table whose labels are distinct, so the \<open>except\<close>
  branch has no counterpart here.
\<close>

definition load_processed_urls :: "dataframe option \<Rightarrow> string set" where
  "load_processed_urls df =
     (case df of
        None \<Rightarrow> {}
      | Some d \<Rightarrow>
          if \<not> df_empty d \<and> list_all (\<lambda>col. col \<in> set (columns d)) required_cols
          then set (map (\<lambda>r. astype_str (r ''First Tweet URL'')) (filter processed_mask (rows d)))
          else {})"




text \<open>A record of the target schema with the given URL and rewrite fields, every other field empty.\<close>

definition log_row :: "string \<Rightarrow> string \<Rightarrow> string \<Rightarrow> row" where
  "log_row url en ru c =
     (if c = ''First Tweet URL'' then Str url
      else if c = ''Rewritten EN'' then Str en
      else if c = ''Rewritten RU'' then Str ru
      else Str [])"



section \<open>Sync Engine: \<open>sync_local_to_gsheet\<close>\<close>

text \<open>
  What the run does to the outside: a call of \<open>send_telegram_notification\<close> (the message
  without its emoji and without the text of an exception), a call of
  \<open>worksheet_tgt.append_rows\<close> with its rows, and the entry into
  \<open>sync_local_to_gsheet\<close>.
\<close>

datatype event = Notify string | AppendRows "string list list" | Sync_call

text \<open>
  \<open>pd.DataFrame(data[1:], columns=data[0])\<close> on the values of a worksheet. gspread returns
  rows as long as the header row. The longest row must be as long as the header, or the
  constructor raises a \<open>ValueError\<close>; a shorter row leaves its last cells missing. A label
  that occurs twice is read at its first occurrence.
\<close>

definition from_values :: "string list \<Rightarrow> string list list \<Rightarrow> error + dataframe" where
  "from_values header recs =
     (if recs = [] \<or> (list_all (\<lambda>rec. length rec \<le> length header) recs \<and>
                       list_ex (\<lambda>rec. length rec = length header) recs)
      then Inr \<lparr>columns = header,
                rows = map (\<lambda>rec c. case map_of (zip header rec) c of Some s \<Rightarrow> Str s | None \<Rightarrow> NaN) recs\<rparr>
      else Inl (Failure ''ValueError''))"

text \<open>\<open>df.astype(str)\<close> and \<open>df.fillna('')\<close> on a whole table.\<close>

definition df_astype_str :: "dataframe \<Rightarrow> dataframe" where
  "df_astype_str d = d\<lparr>rows := map (\<lambda>r c. Str (astype_str (r c))) (rows d)\<rparr>"

definition df_fillna :: "dataframe \<Rightarrow> dataframe" where
  "df_fillna d = d\<lparr>rows := map (\<lambda>r c. fillna_empty (r c)) (rows d)\<rparr>"

text \<open>\<open>Series.isin(a set of strings)\<close> on one cell.\<close>

definition isin :: "cell \<Rightarrow> string set \<Rightarrow> bool" where
  "isin c S = (case c of Str s \<Rightarrow> s \<in> S | _ \<Rightarrow> False)"

text \<open>
  \<open>processed_urls_gsheet_current\<close>: the second \<open>try\<close> block of the function. The argument
  is what \<open>worksheet_tgt.get_all_values()\<close> returned, or the exception it raised. With
  the URL label twice in the header, \<open>df[label]\<close> is a table and its \<open>set\<close> is the set
  of its labels.
\<close>

definition processed_urls_gsheet_current :: "error + string list list \<Rightarrow> string set" where
  "processed_urls_gsheet_current target_read =
     (case target_read of
        Inl e \<Rightarrow> {}
      | Inr data_tgt \<Rightarrow>
          if length data_tgt \<ge> 2 then
            (case from_values (hd data_tgt) (tl data_tgt) of
               Inl e \<Rightarrow> {}
             | Inr df \<Rightarrow>
                 (let df_gsheet_current = df_fillna (df_astype_str df) in
                  if ''First Tweet URL'' \<in> set (columns df_gsheet_current) then
                    (if count_list (columns df_gsheet_current) ''First Tweet URL'' > 1
                     then {''First Tweet URL''}
                     else set (map (\<lambda>r. astype_str (r ''First Tweet URL''))
                                (filter (\<lambda>r. notna (r ''First Tweet URL'')) (rows df_gsheet_current))))
                  else {}))
          else {})"

text \<open>
  \<open>sync_local_to_gsheet(worksheet_tgt)\<close>. \<open>read_csv\<close> is \<open>pd.read_csv\<close> with the
  options of the call, on the records of a file; \<open>local_file\<close> is the content of
  \<open>LOCAL_STATE_FILE\<close> as records, \<open>[]\<close> for a file that does not exist or has size 0;
  \<open>target_read\<close> is the result of \<open>get_all_values()\<close>; \<open>append_result\<close> is the exception
  that \<open>append_rows\<close> raises, if it raises. The result lists the calls the function makes.
\<close>

definition sync_local_to_gsheet ::
  "(string list list \<Rightarrow> error + dataframe) \<Rightarrow> string list list \<Rightarrow> error + string list list \<Rightarrow>
     error option \<Rightarrow> event list" where
  "sync_local_to_gsheet read_csv local_file target_read append_result =
     (if local_file = [] then []
      else case read_csv local_file of
        Inl e \<Rightarrow> [Notify ''ERROR reading local state file for final sync'']
      | Inr df \<Rightarrow>
         (let df_local_final = df_fillna df;
              known = processed_urls_gsheet_current target_read in
          if df_empty df_local_final then []
          else if ''First Tweet URL'' \<notin> set (columns df_local_final) then []
          else
            (let df_to_upload = filter (\<lambda>r. \<not> isin (r ''First Tweet URL'') known) (rows df_local_final) in
             if df_to_upload = [] then []
             else case first_missing (columns df_local_final) TARGET_COLUMNS of
               Some c \<Rightarrow> [Notify ''ERROR appending rows to target sheet during final sync'']
             | None \<Rightarrow>
                (let rows_to_append =
                       map (\<lambda>r. map (\<lambda>c. astype_str (fillna_empty (r c))) TARGET_COLUMNS) df_to_upload in
                 AppendRows rows_to_append #
                   (case append_result of
                      None \<Rightarrow> []
                    | Some e \<Rightarrow> [Notify ''ERROR appending rows to target sheet during final sync''])))))"

text \<open>
  \<open>pd.read_csv(file, dtype=str, keep_default_na=False, na_values=[''])\<close> on well-formed
  records: the first record is the header, an empty field is a missing cell.
\<close>

definition read_csv_records :: "string list list \<Rightarrow> error + dataframe" where
  "read_csv_records file =
     (case file of
        [] \<Rightarrow> Inl (Failure ''EmptyDataError'')
      | header # recs \<Rightarrow>
          if list_all (\<lambda>rec. length rec \<le> length header) recs
          then Inr \<lparr>columns = header,
                    rows = map (\<lambda>rec c. case map_of (zip header rec) c of
                                           Some s \<Rightarrow> if s = [] then NaN else Str s
                                         | None \<Rightarrow> NaN) recs\<rparr>
          else Inl (Failure ''ParserError''))"



text \<open>A record of the local log, in the order of the target columns.\<close>

definition log_record :: "string \<Rightarrow> string \<Rightarrow> string \<Rightarrow> string list" where
  "log_record url en ru = map (\<lambda>c. astype_str (log_row url en ru c)) TARGET_COLUMNS"

definition scenario_D_local :: "string list list" where
  "scenario_D_local =
     [TARGET_COLUMNS,
      log_record ''https://x.com/alice/1'' ''Hello'' ''Privet'',
      log_record ''https://x.com/alice/2'' ''Error: Rewrite Failed (EN)'' ''Error: Rewrite Failed (RU)'']"


section \<open>Rewrite Engine\<close>

datatype lang = EN | RU

text \<open>
  The rewrite service: the text of the response to the \<open>n\<close>-th call of
  \<open>gemini_model.generate_content\<close> in the run, for the prompt of a language around a
  source text, or the exception that the call, or reading \<open>response.text\<close>, raises.
\<close>

type_synonym gemini = "nat \<Rightarrow> lang \<Rightarrow> string \<Rightarrow> error + string"

text \<open>
  The body of \<open>rewrite_text_gemini\<close>: one attempt, from the \<open>n\<close>-th call on. The result
  comes with the number of calls made so far. The semaphore admits the caller at once: the
  items are rewritten one after the other.
\<close>

definition rewrite_attempt :: "gemini \<Rightarrow> string \<Rightarrow> nat \<Rightarrow> (error + string \<times> string) \<times> nat" where
  "rewrite_attempt gemini original_text n =
     (case gemini n EN original_text of
        Inl e \<Rightarrow> (Inl e, Suc n)
      | Inr response_en \<Rightarrow>
          (let rewritten_en = strip response_en in
           case gemini (Suc n) RU original_text of
             Inl e \<Rightarrow> (Inl e, Suc (Suc n))
           | Inr response_ru \<Rightarrow>
               (let rewritten_ru = strip response_ru in
                (Inr (rewritten_en, rewritten_ru), Suc (Suc n)))))"

text \<open>
  \<open>@backoff.on_exception(backoff.expo, Exception, max_tries=...)\<close>: the call is repeated
  after an exception until it returns or the tries are used up; the last exception is
  raised again. The waits between the tries are not part of the model.
\<close>

fun on_exception :: "nat \<Rightarrow> (nat \<Rightarrow> (error + 'a) \<times> nat) \<Rightarrow> nat \<Rightarrow> (error + 'a) \<times> nat" where
  "on_exception 0 f n = f n"
| "on_exception (Suc tries_left) f n =
     (case f n of
        (Inr r, n') \<Rightarrow> (Inr r, n')
      | (Inl e, n') \<Rightarrow> if tries_left = 0 then (Inl e, n') else on_exception tries_left f n')"

definition rewrite_text_gemini :: "gemini \<Rightarrow> string \<Rightarrow> nat \<Rightarrow> (error + string \<times> string) \<times> nat" where
  "rewrite_text_gemini gemini original_text n = on_exception 3 (rewrite_attempt gemini original_text) n"

text \<open>
  One item of the loop of step 4, up to \<open>result_row\<close>: the row with its rewrite fields, the
  number of service calls made so far, and whether the item counts as processed.
\<close>

definition rewrite_item :: "gemini \<Rightarrow> nat \<Rightarrow> row \<Rightarrow> row \<times> nat \<times> bool" where
  "rewrite_item gemini n row =
     (let original_text = row ''Combined Original Text'' in
      if \<not> notna original_text \<or> strip (astype_str original_text) = [] then
        (row(''Rewritten EN'' := Str ''Error: Empty Source Text'',
             ''Rewritten RU'' := Str ''Error: Empty Source Text''), n, False)
      else
        (case rewrite_text_gemini gemini (astype_str original_text) n of
           (Inr (en_text, ru_text), n') \<Rightarrow>
             (row(''Rewritten EN'' := Str en_text, ''Rewritten RU'' := Str ru_text), n', True)
         | (Inl e, n') \<Rightarrow>
             (row(''Rewritten EN'' := Str ''Error: Rewrite Failed (EN)'',
                  ''Rewritten RU'' := Str ''Error: Rewrite Failed (RU)''), n', False)))"

text \<open>
  The state of the loop: the records of \<open>LOCAL_STATE_FILE\<close> (\<open>[]\<close> for a file that does
  not exist or is empty), the number of service calls made, and the two counters.
\<close>

record loop_state =
  log_file :: "string list list"
  calls :: nat
  processed_count :: nat
  failed_count :: nat

text \<open>\<open>final_row_for_csv\<close> as the record that \<open>csv.DictWriter.writerow\<close> writes.\<close>

definition final_row_for_csv :: "row \<Rightarrow> string list" where
  "final_row_for_csv result_row = map (\<lambda>col. astype_str (result_row col)) TARGET_COLUMNS"

text \<open>
  The loop \<open>for index, row in df_final_filtered.iterrows()\<close>. \<open>write_fails k\<close> says that
  \<open>writer.writerow\<close> raises for item number \<open>k\<close>; the exception is caught and the record
  is not written. The header is written before the first record of an empty file.
\<close>

fun rewrite_loop :: "gemini \<Rightarrow> (nat \<Rightarrow> bool) \<Rightarrow> row list \<Rightarrow> loop_state \<Rightarrow> loop_state" where
  "rewrite_loop gemini write_fails [] st = st"
| "rewrite_loop gemini write_fails (row # rest) st =
     (let with_header = (if log_file st = [] then [TARGET_COLUMNS] else log_file st);
          current_item_num = processed_count st + failed_count st + 1;
          (result_row, n', ok) = rewrite_item gemini (calls st) row;
          written = (if write_fails current_item_num then with_header
                     else with_header @ [final_row_for_csv result_row])
      in rewrite_loop gemini write_fails rest
           \<lparr>log_file = written, calls = n',
            processed_count = (if ok then processed_count st + 1 else processed_count st),
            failed_count = (if ok then failed_count st else failed_count st + 1)\<rparr>)"

text \<open>
  The two states of a rewrite field in the words of the specification, and the atomicity
  of a record of the log: its two rewrite fields are the fields 14 and 15 of the target
  columns.
\<close>

definition rewritten_ok :: "string \<Rightarrow> bool" where
  "rewritten_ok s \<longleftrightarrow> s \<noteq> [] \<and> \<not> startswith s ''Error:''"

definition error_sentinel :: "string \<Rightarrow> bool" where
  "error_sentinel s \<longleftrightarrow> startswith s ''Error:''"

definition atomic_fields :: "string \<Rightarrow> string \<Rightarrow> bool" where
  "atomic_fields en ru \<longleftrightarrow> (rewritten_ok en \<and> rewritten_ok ru) \<or> (error_sentinel en \<and> error_sentinel ru)"

definition atomic_record :: "string list \<Rightarrow> bool" where
  "atomic_record rec \<longleftrightarrow> atomic_fields (rec ! 14) (rec ! 15)"

text \<open>A service is well-behaved when every text it returns is, once stripped, a rewrite.\<close>

definition replies_are_rewrites :: "gemini \<Rightarrow> bool" where
  "replies_are_rewrites gemini \<longleftrightarrow> (\<forall>n l t s. gemini n l t = Inr s \<longrightarrow> rewritten_ok (strip s))"

text \<open>Services and a unit for the scenarios.\<close>

definition gemini_blank_english :: gemini where
  "gemini_blank_english n l t = (case l of EN \<Rightarrow> Inr ''   '' | RU \<Rightarrow> Inr ''Privet'')"

definition gemini_fails_twice :: gemini where
  "gemini_fails_twice n l t =
     (if n = 0 \<or> n = 2 then Inl (Failure ''DeadlineExceeded'')
      else case l of EN \<Rightarrow> Inr ''Hello '' | RU \<Rightarrow> Inr ''Privet'')"

definition gemini_down :: gemini where
  "gemini_down n l t = Inl (Failure ''ServiceUnavailable'')"

definition unit_row :: "string \<Rightarrow> string \<Rightarrow> row" where
  "unit_row url text c =
     (if c = ''First Tweet URL'' then Str url
      else if c = ''Combined Original Text'' then Str text
      else if c = ''Content Type'' then Str ''Original Tweet''
      else Str [])"

definition empty_log :: loop_state where
  "empty_log = \<lparr>log_file = [], calls = 0, processed_count = 0, failed_count = 0\<rparr>"

section \<open>Notification channel: \<open>send_telegram_notification\<close>\<close>

text \<open>
  A setting read with \<open>os.getenv\<close> is a string or \<open>None\<close>; \<open>not value\<close> holds for
  \<open>None\<close> and for the empty string.
\<close>

definition falsy :: "string option \<Rightarrow> bool" where
  "falsy v = (v = None \<or> v = Some [])"

text \<open>
  The three scripts carry the same function; the analyzer and the Twitter scraper print the
  first line of the message after a successful send, the Reddit scraper does not.
\<close>

datatype script = Analyzer | Twitter_scraper | Reddit_scraper

text \<open>
  The exceptions of the \<open>try\<close> block, all instances of \<open>Exception\<close>:
  \<open>requests.exceptions.RequestException\<close> (with \<open>HTTPError\<close>), \<open>IndexError\<close> and any other.
\<close>

datatype exn = RequestException | IndexError | OtherException

text \<open>
  What \<open>requests.post\<close> does with a payload: it raises, or it returns a response whose
  \<open>raise_for_status()\<close> passes or raises \<open>HTTPError\<close>.
\<close>

datatype post_result = Post_raises exn | Response bool

definition is_linebreak :: "char \<Rightarrow> bool" where
  "is_linebreak c = ((10 \<le> code_point c \<and> code_point c \<le> 13) \<or> (28 \<le> code_point c \<and> code_point c \<le> 30))"

text \<open>\<open>s.splitlines()[0]\<close>: an \<open>IndexError\<close> on the empty string.\<close>

definition first_line :: "string \<Rightarrow> exn + string" where
  "first_line s = (if s = [] then Inl IndexError else Inr (takeWhile (\<lambda>c. \<not> is_linebreak c) s))"

text \<open>
  The statements of the \<open>try\<close> block, for the truncated message: the post, the status
  check, and the print of the first line of its first 70 characters.
\<close>

definition try_send :: "script \<Rightarrow> (string \<Rightarrow> post_result) \<Rightarrow> string \<Rightarrow> exn + unit" where
  "try_send script post truncated_message =
     (case post truncated_message of
        Post_raises e \<Rightarrow> Inl e
      | Response passes \<Rightarrow>
          if \<not> passes then Inl RequestException
          else if script = Reddit_scraper then Inr ()
          else (case first_line (take 70 truncated_message) of
                  Inl e \<Rightarrow> Inl e
                | Inr line \<Rightarrow> Inr ()))"

text \<open>
  \<open>send_telegram_notification(message)\<close>: what the call gives back to its caller (an
  exception that leaves it, or \<open>None\<close>) and the texts handed to \<open>requests.post\<close>.
\<close>

definition send_telegram_notification ::
  "script \<Rightarrow> string option \<Rightarrow> string option \<Rightarrow> (string \<Rightarrow> post_result) \<Rightarrow> string \<Rightarrow> (exn + unit) \<times> string list" where
  "send_telegram_notification script token chat_id post message =
     (if falsy token \<or> falsy chat_id then (Inr (), [])
      else
        (let max_len = 4096;
             truncated_message = (if length message > max_len then take max_len message else message) in
         (case try_send script post truncated_message of
            Inr u \<Rightarrow> Inr ()
          | Inl e \<Rightarrow> if e = RequestException then Inr () else Inr (),
          [truncated_message])))"

section \<open>The analyzer as a process\<close>








section \<open>Twitter scraper: \<open>run_scrape_cycle\<close>\<close>

text \<open>
  A tweet and a user as twscrape returns them, with the fields the cycle reads; \<open>date\<close> is
  the tweet's date formatted in the target time zone.
\<close>

record tweet =
  tweet_id :: int
  date :: string
  rawContent :: string
  url :: string
  retweetedTweet :: bool
  quotedTweet :: bool
  inReplyToTweetId :: "int option"
  likeCount :: "int option"
  retweetCount :: "int option"
  replyCount :: "int option"
  quoteCount :: "int option"
  bookmarkedCount :: "int option"
  viewCount :: "int option"
  conversationId :: "int option"

record user =
  user_id :: int
  displayname :: "string option"

text \<open>
  What the API gives for one user name of the cycle: \<open>user_by_login\<close> raises, finds no
  user, or returns one; \<open>user_tweets_and_replies\<close> raises or returns tweets.
\<close>

record lookup =
  profile :: "error + user option"
  fetched :: "error + tweet list"

text \<open>\<open>value or 0\<close> and the truth value of an optional integer.\<close>

definition or_zero :: "int option \<Rightarrow> int" where
  "or_zero v = (case v of None \<Rightarrow> 0 | Some n \<Rightarrow> n)"

definition truthy :: "int option \<Rightarrow> bool" where
  "truthy v = (case v of None \<Rightarrow> False | Some n \<Rightarrow> n \<noteq> 0)"

definition tweet_row :: "string \<Rightarrow> string \<Rightarrow> string \<Rightarrow> tweet \<Rightarrow> cell list" where
  "tweet_row username user_id_str user_display_name t =
     (let tweet_type =
            (if retweetedTweet t then ''Retweet''
             else if quotedTweet t then ''Quote Tweet''
             else if truthy (inReplyToTweetId t) then ''Reply''
             else ''Original Tweet'');
          conversation_id_str =
            (if truthy (conversationId t) then str_of_int (or_zero (conversationId t)) else ''N/A'')
      in [Str username, Str user_id_str, Str user_display_name, Str (date t),
          Str (rawContent t), Str (url t),
          Num (or_zero (likeCount t)), Num (or_zero (retweetCount t)), Num (or_zero (replyCount t)),
          Num (or_zero (quoteCount t)), Num (or_zero (bookmarkedCount t)), Num (or_zero (viewCount t)),
          Str tweet_type, Str conversation_id_str])"

text \<open>
  The state of a cycle: the stored last-seen identifiers, the rows collected, the
  identifiers of the tweets seen in this run, and the errors collected.
\<close>

record cycle_state =
  last_seen_state :: "string \<rightharpoonup> int"
  all_rows_to_append :: "cell list list"
  processed_tweet_ids_this_run :: "int set"
  cycle_errors :: "string list"

text \<open>\<open>last_seen_state.get(username, 0)\<close>\<close>

definition get_last_seen :: "(string \<rightharpoonup> int) \<Rightarrow> string \<Rightarrow> int" where
  "get_last_seen s username = (case s username of None \<Rightarrow> 0 | Some v \<Rightarrow> v)"

text \<open>
  The loop \<open>for tweet in new_tweets\<close>: the running maximum, the rows and the identifiers
  seen.
\<close>

fun process_new_tweets ::
  "string \<Rightarrow> string \<Rightarrow> string \<Rightarrow> tweet list \<Rightarrow> int \<times> cell list list \<times> int set \<Rightarrow> int \<times> cell list list \<times> int set" where
  "process_new_tweets username uid dname [] acc = acc"
| "process_new_tweets username uid dname (t # ts) (max_new_id, collected, seen) =
     (let max_new_id' = (if tweet_id t > max_new_id then tweet_id t else max_new_id) in
      if tweet_id t \<in> seen then process_new_tweets username uid dname ts (max_new_id', collected, seen)
      else process_new_tweets username uid dname ts
             (max_new_id', collected @ [tweet_row username uid dname t], insert (tweet_id t) seen))"

text \<open>\<open>max((t.id for t in fetched_tweets), default=0)\<close>\<close>

definition max_id :: "tweet list \<Rightarrow> int" where
  "max_id ts = foldr (\<lambda>t m. max (tweet_id t) m) ts (case ts of [] \<Rightarrow> 0 | t # _ \<Rightarrow> tweet_id t)"

text \<open>The body of \<open>for username in target_usernames_list\<close>, without the wait at its end.\<close>

definition scrape_user :: "string set \<Rightarrow> string \<times> lookup \<Rightarrow> cycle_state \<Rightarrow> cycle_state" where
  "scrape_user initial_state_keys target st =
     (let username = fst target; api = snd target;
          last_seen_id = get_last_seen (last_seen_state st) username in
      case profile api of
        Inl e \<Rightarrow> st\<lparr>cycle_errors := cycle_errors st @ [''ERROR fetching user profile @'' @ username]\<rparr>
      | Inr None \<Rightarrow> st
      | Inr (Some u) \<Rightarrow>
          (let user_id_str = str_of_int (user_id u);
               user_display_name = (case displayname u of None \<Rightarrow> ''N/A'' | Some n \<Rightarrow> n) in
           case fetched api of
             Inl e \<Rightarrow> st\<lparr>cycle_errors := cycle_errors st @ [''ERROR fetching/processing tweets for @'' @ username]\<rparr>
           | Inr fetched_tweets \<Rightarrow>
               (let new_tweets = filter (\<lambda>t. tweet_id t > last_seen_id) fetched_tweets in
                if new_tweets \<noteq> [] then
                  (let (max_new_id, collected, seen) =
                         process_new_tweets username user_id_str user_display_name (rev new_tweets)
                           (last_seen_id, all_rows_to_append st, processed_tweet_ids_this_run st);
                       st' = st\<lparr>all_rows_to_append := collected, processed_tweet_ids_this_run := seen\<rparr>
                   in if max_new_id > last_seen_id
                      then st'\<lparr>last_seen_state := (last_seen_state st)(username \<mapsto> max_new_id)\<rparr>
                      else st')
                else if username \<notin> initial_state_keys \<and> fetched_tweets \<noteq> [] then
                  (let latest_fetched_id = max_id fetched_tweets in
                   if latest_fetched_id > last_seen_id
                   then st\<lparr>last_seen_state := (last_seen_state st)(username \<mapsto> latest_fetched_id)\<rparr>
                   else st)
                else st)))"

text \<open>What the cycle does to the sheet, the state file and the notification channel.\<close>

datatype scraper_event =
  Insert_header | Append_rows "cell list list" | Save_state "string \<rightharpoonup> int" | Notify_errors "string list"

text \<open>
  \<open>run_scrape_cycle\<close>: \<open>header_check\<close> is \<open>None\<close> when the header is in place,
  \<open>Some (Inr ())\<close> when it is inserted, \<open>Some (Inl e)\<close> when the check or the insertion
  raises; \<open>append_raises\<close> and \<open>save_raises\<close> say that \<open>append_rows\<close>, or writing the
  state file, raises. The result is the state after the cycle and what the cycle did.
\<close>

definition run_scrape_cycle ::
  "(error + unit) option \<Rightarrow> bool \<Rightarrow> bool \<Rightarrow> (string \<times> lookup) list \<Rightarrow> (string \<rightharpoonup> int) \<Rightarrow> string set
     \<Rightarrow> cycle_state \<times> scraper_event list" where
  "run_scrape_cycle header_check append_raises save_raises targets last_seen initial_state_keys =
     (let st0 = \<lparr>last_seen_state = last_seen, all_rows_to_append = [], processed_tweet_ids_this_run = {},
                 cycle_errors = (case header_check of Some (Inl e) \<Rightarrow> [''Failed to check/write header''] | _ \<Rightarrow> [])\<rparr>;
          header_events = (case header_check of Some (Inr u) \<Rightarrow> [Insert_header] | _ \<Rightarrow> []);
          st1 = fold (scrape_user initial_state_keys) targets st0;
          sorted_rows = sort_key (\<lambda>row_item. astype_str (row_item ! 3)) (all_rows_to_append st1);
          st2 = st1\<lparr>all_rows_to_append := sorted_rows\<rparr>;
          append_events = (if sorted_rows \<noteq> [] then [Append_rows sorted_rows] else []);
          st3 = (if sorted_rows \<noteq> [] \<and> append_raises
                 then st2\<lparr>cycle_errors := cycle_errors st2 @ [''error appending rows'']\<rparr> else st2);
          save_events = [Save_state (last_seen_state st3)] @
                        (if save_raises then [Notify_errors [''ERROR saving state'']] else []);
          error_events =
            (if cycle_errors st3 \<noteq> []
             then [Notify_errors (take 5 (cycle_errors st3) @
                     (if length (cycle_errors st3) > 5 then [''... and more''] else []))]
             else [])
      in (st3, header_events @ append_events @ save_events @ error_events))"

text \<open>Tweets and a look-up for the scenarios.\<close>

definition plain_tweet :: "int \<Rightarrow> tweet" where
  "plain_tweet i = \<lparr>tweet_id = i, date = ''2024-01-01 10:00:00 UTC+0000'', rawContent = ''hello'',
     url = ''https://x.com/alice/status'', retweetedTweet = False, quotedTweet = False,
     inReplyToTweetId = None, likeCount = Some 3, retweetCount = None, replyCount = None,
     quoteCount = None, bookmarkedCount = None, viewCount = Some 10, conversationId = Some i\<rparr>"

definition alice_lookup :: lookup where
  "alice_lookup = \<lparr>profile = Inr (Some \<lparr>user_id = 7, displayname = Some ''Alice''\<rparr>),
     fetched = Inr [plain_tweet 120, plain_tweet 90, plain_tweet 105]\<rparr>"

section \<open>The analyzer run: \<open>process_data\<close>\<close>

subsection \<open>Relevance filters of step 3d\<close>

text \<open>
  \<open>re.sub(r'http\S+|www.\S+', '', text)\<close>: at each position from the left, \<open>http\<close> and
  the non-whitespace run after it (at least one character), or \<open>www\<close>, one character
  that is not a line feed, and the non-whitespace run after it (at least one character).
\<close>

definition url_match :: "string \<Rightarrow> bool" where
  "url_match s =
     ((startswith s ''http'' \<and> takeWhile (\<lambda>c. \<not> is_space c) (drop 4 s) \<noteq> []) \<or>
      (startswith s ''www'' \<and> length s > 3 \<and> s ! 3 \<noteq> CHR 0x0A \<and>
       takeWhile (\<lambda>c. \<not> is_space c) (drop 4 s) \<noteq> []))"

function remove_urls :: "string \<Rightarrow> string" where
  "remove_urls [] = []"
| "remove_urls (c # cs) =
     (if url_match (c # cs) then remove_urls (dropWhile (\<lambda>x. \<not> is_space x) (drop 4 (c # cs)))
      else c # remove_urls cs)"
  by pat_completeness auto
termination
  by (relation "measure length") (auto intro!: le_imp_less_Suc order_trans [OF length_dropWhile_le])

text \<open>\<open>text.replace(old, '')\<close> for a non-empty \<open>old\<close>.\<close>

function remove_all :: "string \<Rightarrow> string \<Rightarrow> string" where
  "remove_all old [] = []"
| "remove_all old (c # cs) =
     (if old \<noteq> [] \<and> startswith (c # cs) old then remove_all old (drop (length old) (c # cs))
      else c # remove_all old cs)"
  by pat_completeness auto
termination
  by (relation "measure (\<lambda>(old, s). length s)") auto

text \<open>\<open>text.split()\<close>: the maximal runs of characters that are not whitespace.\<close>

function split_whitespace :: "string \<Rightarrow> string list" where
  "split_whitespace [] = []"
| "split_whitespace (c # cs) =
     (if is_space c then split_whitespace cs
      else takeWhile (\<lambda>x. \<not> is_space x) (c # cs) # split_whitespace (dropWhile (\<lambda>x. \<not> is_space x) cs))"
  by pat_completeness auto
termination
  by (relation "measure length") (auto intro!: le_imp_less_Suc length_dropWhile_le)

definition clean_text_for_filtering :: "cell \<Rightarrow> string" where
  "clean_text_for_filtering c =
     strip (join_str '' '' (split_whitespace (remove_all ''---'' (remove_urls (astype_str c)))))"

definition MIN_CONTENT_LENGTH :: nat where
  "MIN_CONTENT_LENGTH = 50"

definition RELEVANT_KEYWORDS :: "string list" where
  "RELEVANT_KEYWORDS =
    [''ai'', ''agi'', ''openai'', ''google'', ''gemini'', ''claude'', ''mistral'', ''llm'',
     ''model'', ''automation'', '' n8n'', ''python'', ''api'', ''workflow'', ''data'',
     ''tech'', ''business'', ''startup'', ''rahmetlabs'', ''scraping'', ''analyze'',
     ''process'', ''update'', ''news'', ''release'', ''research'', ''paper'', ''opinion'',
     ''thought'', ''develop'', ''build'', ''future'', ''risk'', ''safety'', ''alignment'',
     ''code'', ''coding'', ''launch'', ''feature'', ''limit'', ''rate limit'', ''context window'',
     ''token'', ''prompt'', ''engineer'', ''benchmark'', ''test'']"

definition prompt_markers :: "string list" where
  "prompt_markers = [''# Prompt'', ''<Role>'', ''<Instructions>'', ''<Context>'']"

text \<open>
  \<open>Series.str.contains('k1|k2|...', case=False, na=False)\<close> for escaped literals: some
  literal occurs in the text, ignoring case.
\<close>

fun occurs_ci :: "string \<Rightarrow> string \<Rightarrow> bool" where
  "occurs_ci k [] = (k = [])"
| "occurs_ci k (c # cs) =
     ((length k \<le> length (c # cs) \<and> list_all2 eq_ci k (take (length k) (c # cs))) \<or> occurs_ci k cs)"

definition contains_any :: "string list \<Rightarrow> cell \<Rightarrow> bool" where
  "contains_any literals c = (case c of Str s \<Rightarrow> list_ex (\<lambda>k. occurs_ci k s) literals | _ \<Rightarrow> False)"

text \<open>\<open>Series.str.count(pattern)\<close> for a literal: occurrences that do not overlap, from the left.\<close>

function count_occurrences :: "string \<Rightarrow> string \<Rightarrow> nat" where
  "count_occurrences p [] = 0"
| "count_occurrences p (c # cs) =
     (if p \<noteq> [] \<and> startswith (c # cs) p then Suc (count_occurrences p (drop (length p) (c # cs)))
      else count_occurrences p cs)"
  by pat_completeness auto
termination
  by (relation "measure (\<lambda>(p, s). length s)") auto

text \<open>The three filters of step 3d on one row, in the order they are applied.\<close>

definition passes_content_filters :: "row \<Rightarrow> bool" where
  "passes_content_filters r =
     (length (clean_text_for_filtering (r ''Combined Original Text'')) \<ge> MIN_CONTENT_LENGTH \<and>
      contains_any RELEVANT_KEYWORDS (r ''Combined Original Text'') \<and>
      \<not> contains_any prompt_markers (r ''Combined Original Text'') \<and>
      (case r ''Combined Original Text'' of
         Str s \<Rightarrow> count_occurrences ''```'' s \<le> 2 | _ \<Rightarrow> False))"

definition content_types_to_rewrite :: "string \<Rightarrow> string list" where
  "content_types_to_rewrite platform =
     (if platform = ''twitter'' then [''Original Tweet'', ''Thread'']
      else if platform = ''reddit'' then [''Reddit Post'']
      else [])"

subsection \<open>Inputs of a run\<close>

text \<open>What \<open>sh.worksheet(name).get_all_values()\<close> gives for one source sheet.\<close>

datatype sheet_read = Worksheet_not_found | Read_raises | Sheet_values "string list list"

text \<open>
  Everything the run reads from outside: the platform; the source sheets in the order of
  their names; the records of the local state file when the run starts; \<open>pd.read_csv\<close>,
  the numeric conversion \<open>pd.to_numeric(..., errors='coerce').fillna(0).astype(int)\<close> on a
  cell and \<open>parse_datetime\<close> on a cell (\<open>None\<close> for \<open>NaT\<close>, otherwise whether the
  timestamp carries a time zone, and its instant); the values of the target sheet when the
  state is loaded and when it is synced; the exception of \<open>append_rows\<close>, if any; the
  clock reading; the rewrite service; whether opening the local file raises and for which
  items \<open>writerow\<close> raises.
\<close>

record env =
  PLATFORM :: string
  source_worksheets :: "sheet_read list"
  LOCAL_STATE_FILE :: "string list list"
  pd_read_csv :: "string list list \<Rightarrow> error + dataframe"
  pd_to_numeric :: "cell \<Rightarrow> error + int"
  parse_datetime :: "cell \<Rightarrow> (bool \<times> int) option"
  target_values_at_load :: "error + string list list"
  target_values_at_sync :: "error + string list list"
  append_rows_raises :: "error option"
  clock :: string
  gemini_model :: gemini
  open_raises :: bool
  writerow_raises :: "nat \<Rightarrow> bool"

subsection \<open>Step 1: source sheets and processed URLs\<close>

text \<open>
  One source sheet: the table appended to \<open>all_source_dfs\<close>, if any, with the missing
  target columns added as empty strings, and the notification sent.
\<close>

definition read_source_sheet :: "sheet_read \<Rightarrow> dataframe option \<times> event list" where
  "read_source_sheet s =
     (case s of
        Worksheet_not_found \<Rightarrow> (None, [])
      | Read_raises \<Rightarrow> (None, [Notify ''ERROR reading data from source sheet''])
      | Sheet_values data_src \<Rightarrow>
          if length data_src < 2 then (None, [])
          else
            (case from_values (hd data_src) (tl data_src) of
               Inl e \<Rightarrow> (None, [Notify ''ERROR reading data from source sheet''])
             | Inr df_sheet \<Rightarrow>
                 (Some \<lparr>columns = columns df_sheet @ filter (\<lambda>c. c \<notin> set (columns df_sheet)) TARGET_COLUMNS,
                        rows = map (\<lambda>r c. if c \<notin> set (columns df_sheet) \<and> c \<in> set TARGET_COLUMNS
                                           then Str [] else r c) (rows df_sheet)\<rparr>, [])))"

text \<open>\<open>pd.concat(all_source_dfs, ignore_index=True)\<close>: a cell of a column that a table does not have is missing.\<close>

definition concat_frames :: "dataframe list \<Rightarrow> dataframe" where
  "concat_frames dfs = \<lparr>columns = remdups (concat (map columns dfs)), rows = concat (map rows dfs)\<rparr>"

text \<open>
  A state table brought to the target columns: \<open>fillna('')\<close>, the missing target columns
  added as empty strings, and the target columns selected.
\<close>

definition to_target_columns :: "dataframe \<Rightarrow> dataframe" where
  "to_target_columns df =
     \<lparr>columns = TARGET_COLUMNS,
      rows = map (\<lambda>r c. if c \<in> set (columns df) then fillna_empty (r c) else Str []) (rows df)\<rparr>"

definition processed_urls_local :: "env \<Rightarrow> string set" where
  "processed_urls_local e =
     (if LOCAL_STATE_FILE e \<noteq> [] then
        (case pd_read_csv e (LOCAL_STATE_FILE e) of
           Inl err \<Rightarrow> {}
         | Inr df_local_state \<Rightarrow> load_processed_urls (Some (to_target_columns df_local_state)))
      else {})"

definition processed_urls_gsheet :: "env \<Rightarrow> string set" where
  "processed_urls_gsheet e =
     (case target_values_at_load e of
        Inl err \<Rightarrow> {}
      | Inr data_tgt \<Rightarrow>
          if length data_tgt \<ge> 2 then
            (case from_values (hd data_tgt) (tl data_tgt) of
               Inl err \<Rightarrow> {}
             | Inr df \<Rightarrow> load_processed_urls (Some (to_target_columns (df_astype_str df))))
          else {})"

subsection \<open>Step 2: pre-processing\<close>

definition num_cols_in_target :: "string list" where
  "num_cols_in_target =
     [''Likes (First Tweet)'', ''Retweets (First Tweet)'', ''Replies (First Tweet)'',
      ''Quotes (First Tweet)'', ''Bookmarks (First Tweet)'', ''Views (First Tweet)'',
      ''Score'', ''Num Comments'']"

definition required_process_cols :: "string list" where
  "required_process_cols = [''Original Username'', ''Conversation ID'', ''Tweet Text'']"

text \<open>
  The conversions of the \<open>try\<close> block on one row: the numeric columns (a column that the
  table does not have becomes 0), the conversation id and the text as strings. The result
  is an exception when a numeric conversion raises.
\<close>

definition preprocess_row :: "(cell \<Rightarrow> error + int) \<Rightarrow> string list \<Rightarrow> row \<Rightarrow> error + row" where
  "preprocess_row to_numeric cols r =
     (case find (\<lambda>c. c \<in> set cols \<and> isl (to_numeric (r c))) num_cols_in_target of
        Some c \<Rightarrow> Inl (Failure ''numeric conversion'')
      | None \<Rightarrow>
          Inr (\<lambda>c. if c \<in> set num_cols_in_target
                   then (if c \<in> set cols then Num (projr (to_numeric (r c))) else Num 0)
                   else if c = ''Conversation ID'' \<or> c = ''Tweet Text'' then Str (astype_str (r c))
                   else r c))"

fun preprocess_rows :: "(cell \<Rightarrow> error + int) \<Rightarrow> string list \<Rightarrow> row list \<Rightarrow> error + row list" where
  "preprocess_rows to_numeric cols [] = Inr []"
| "preprocess_rows to_numeric cols (r # rs) =
     (case preprocess_row to_numeric cols r of
        Inl e \<Rightarrow> Inl e
      | Inr r' \<Rightarrow>
          (case preprocess_rows to_numeric cols rs of
             Inl e \<Rightarrow> Inl e
           | Inr rs' \<Rightarrow> Inr (r' # rs')))"

subsection \<open>Step 3: grouping and consolidation\<close>

text \<open>
  \<open>df_src.groupby(['Original Username', 'Conversation ID'])\<close>: the keys in ascending
  order, without the rows whose key has a missing cell; the rows of a key keep their order.
\<close>

definition groupable :: "row \<Rightarrow> bool" where
  "groupable r = (notna (r ''Original Username'') \<and> notna (r ''Conversation ID''))"

definition group_key :: "row \<Rightarrow> string \<times> string" where
  "group_key r = (astype_str (r ''Original Username''), astype_str (r ''Conversation ID''))"

definition group_keys :: "row list \<Rightarrow> (string \<times> string) list" where
  "group_keys rs = sort (remdups (map group_key (filter groupable rs)))"

definition group_rows :: "string \<times> string \<Rightarrow> row list \<Rightarrow> row list" where
  "group_rows name rs = filter (\<lambda>r. groupable r \<and> group_key r = name) rs"

text \<open>The loop over the groups: \<open>processed_rows\<close>, or the exception that leaves the loop.\<close>

fun consolidate_groups ::
  "string \<Rightarrow> string \<Rightarrow> string list \<Rightarrow> row list \<Rightarrow> (string \<times> string) list \<Rightarrow> error + row list" where
  "consolidate_groups platform now cols rs [] = Inr []"
| "consolidate_groups platform now cols rs (name # names) =
     (case consolidate_group platform now cols name (group_rows name rs) of
        Inl e \<Rightarrow> Inl e
      | Inr emitted \<Rightarrow>
          (case consolidate_groups platform now cols rs names of
             Inl e \<Rightarrow> Inl e
           | Inr processed_rows \<Rightarrow>
               Inr (case emitted of None \<Rightarrow> processed_rows | Some u \<Rightarrow> u # processed_rows)))"

subsection \<open>Steps 3a to 5\<close>

text \<open>The call of the Sync Engine in a run, on the records of the local file at that time.\<close>

definition sync_step :: "env \<Rightarrow> string list list \<Rightarrow> event list" where
  "sync_step e file =
     Sync_call # sync_local_to_gsheet (pd_read_csv e) file (target_values_at_sync e) (append_rows_raises e)"

text \<open>
  Step 3a: the rows whose timestamp parses, sorted by user name, conversation id and
  instant. Sorting timestamps with and without time zone together raises.
\<close>

definition parsed_and_sorted :: "env \<Rightarrow> row list \<Rightarrow> error + row list" where
  "parsed_and_sorted e consolidated =
     (let parsed = filter (\<lambda>r. parse_datetime e (r ''First Tweet Timestamp'') \<noteq> None) consolidated;
          zones = map (\<lambda>r. fst (the (parse_datetime e (r ''First Tweet Timestamp'')))) parsed in
      if True \<in> set zones \<and> False \<in> set zones then Inl (Failure ''TypeError'')
      else Inr (sort_key (\<lambda>r. (sort_cell_key (r ''Original Username''),
                               sort_cell_key (r ''Conversation ID''),
                               snd (the (parse_datetime e (r ''First Tweet Timestamp''))))) parsed))"

text \<open>
  The result of a run: the exception that leaves \<open>process_data\<close>, if one does; what the
  run did, in order; and the records of the local state file at its end.
\<close>

record outcome =
  raised :: "error option"
  events :: "event list"
  final_file :: "string list list"

text \<open>
  From \<open>processed_rows\<close> to the end of \<open>process_data\<close>. \<open>earlier\<close> are the notifications
  of the steps before.
\<close>

definition process_consolidated :: "env \<Rightarrow> event list \<Rightarrow> string set \<Rightarrow> row list \<Rightarrow> outcome" where
  "process_consolidated e earlier processed_urls processed_rows =
     (if processed_rows = [] then
        \<lparr>raised = None, events = earlier @ sync_step e (LOCAL_STATE_FILE e), final_file = LOCAL_STATE_FILE e\<rparr>
      else
        (case parsed_and_sorted e processed_rows of
           Inl err \<Rightarrow> \<lparr>raised = None, events = earlier, final_file = LOCAL_STATE_FILE e\<rparr>
         | Inr df_consolidated \<Rightarrow>
            (let df_to_process = filter (\<lambda>r. \<not> isin (r ''First Tweet URL'') processed_urls) df_consolidated;
                 df_typed_filtered =
                   filter (\<lambda>r. isin (r ''Content Type'') (set (content_types_to_rewrite (PLATFORM e)))) df_to_process
             in
             if df_typed_filtered = [] then
               \<lparr>raised = None,
                events = earlier @ sync_step e (LOCAL_STATE_FILE e) @
                         [Notify ''Analyzer run finished: No new Original Tweets or Threads found.''],
                final_file = LOCAL_STATE_FILE e\<rparr>
             else
               (let df_final_filtered = filter passes_content_filters df_typed_filtered in
                if df_final_filtered = [] then
                  \<lparr>raised = None,
                   events = earlier @ sync_step e (LOCAL_STATE_FILE e) @
                            [Notify ''Analyzer run finished: No new relevant Original Tweets or Threads to process.''],
                   final_file = LOCAL_STATE_FILE e\<rparr>
                else if open_raises e then
                  \<lparr>raised = Some (Failure ''OSError''), events = earlier, final_file = LOCAL_STATE_FILE e\<rparr>
                else
                  (let st = rewrite_loop (gemini_model e) (writerow_raises e) df_final_filtered
                              \<lparr>log_file = LOCAL_STATE_FILE e, calls = 0, processed_count = 0, failed_count = 0\<rparr>
                   in \<lparr>raised = None,
                       events = earlier @ sync_step e (log_file st) @ [Notify ''Analyzer finished successfully''],
                       final_file = log_file st\<rparr>)))))"

text \<open>
  \<open>process_data()\<close>. The check of the grouping columns before \<open>groupby\<close> cannot
  fail once the required columns have been found, and has no branch here.
\<close>

definition process_data :: "env \<Rightarrow> outcome" where
  "process_data e =
     (let reads = map read_source_sheet (source_worksheets e);
          all_source_dfs = List.map_filter fst reads;
          read_events = concat (map snd reads) in
      if all_source_dfs = [] then
        \<lparr>raised = None, events = read_events @ [Notify ''Analyzer run finished: No source data found.''],
         final_file = LOCAL_STATE_FILE e\<rparr>
      else
        (let df_src = concat_frames all_source_dfs;
             processed_urls = processed_urls_local e \<union> processed_urls_gsheet e in
         if \<not> list_all (\<lambda>col. col \<in> set (columns df_src)) required_process_cols then
           \<lparr>raised = None, events = read_events, final_file = LOCAL_STATE_FILE e\<rparr>
         else
           (case preprocess_rows (pd_to_numeric e) (columns df_src) (rows df_src) of
              Inl err \<Rightarrow>
                \<lparr>raised = None, events = read_events @ [Notify ''ERROR during data pre-processing''],
                 final_file = LOCAL_STATE_FILE e\<rparr>
            | Inr src_rows \<Rightarrow>
                (case consolidate_groups (PLATFORM e) (clock e) (columns df_src) src_rows (group_keys src_rows) of
                   Inl err \<Rightarrow> \<lparr>raised = Some err, events = read_events, final_file = LOCAL_STATE_FILE e\<rparr>
                 | Inr processed_rows \<Rightarrow> process_consolidated e read_events processed_urls processed_rows))))"

subsection \<open>Runs for the scenarios\<close>

definition source_frames :: "env \<Rightarrow> dataframe list" where
  "source_frames e = List.map_filter fst (map read_source_sheet (source_worksheets e))"

definition source_header :: "string list" where
  "source_header =
     [''Original Username'', ''Display Name'', ''First Tweet Timestamp'', ''Tweet Text'',
      ''First Tweet URL'', ''Likes (First Tweet)'', ''Tweet Type'', ''Conversation ID'']"

text \<open>
  A run on a platform with given source sheets: a local log with a rewritten record and a
  failed one, an empty target sheet, and a rewrite service that fails twice.
\<close>

definition run_with :: "sheet_read list \<Rightarrow> env" where
  "run_with sheets =
     \<lparr>PLATFORM = ''twitter'',
      source_worksheets = sheets,
      LOCAL_STATE_FILE = scenario_D_local,
      pd_read_csv = read_csv_records,
      pd_to_numeric = (\<lambda>c. Inr 0),
      parse_datetime = (\<lambda>c. if c = Str [] then None else Some (False, 0)),
      target_values_at_load = Inr [TARGET_COLUMNS],
      target_values_at_sync = Inr [TARGET_COLUMNS],
      append_rows_raises = None,
      clock = ''2024-01-02 00:00:00 UTC'',
      gemini_model = gemini_fails_twice,
      open_raises = False,
      writerow_raises = (\<lambda>k. False)\<rparr>"

definition sheet_without_rows :: sheet_read where
  "sheet_without_rows = Sheet_values [source_header]"

definition sheet_without_text :: sheet_read where
  "sheet_without_text = Sheet_values [[''Original Username'', ''Conversation ID''], [''alice'', ''conv1'']]"

definition sheet_short_post :: sheet_read where
  "sheet_short_post = Sheet_values
     [source_header,
      [''alice'', ''Alice'', ''2024-01-01 10:00:00'', ''hello'', ''https://x.com/alice/3'', ''3'',
       ''Original Tweet'', ''conv3'']]"

definition sheet_long_post :: sheet_read where
  "sheet_long_post = Sheet_values
     [source_header,
      [''alice'', ''Alice'', ''2024-01-01 10:00:00'',
       ''A new model release for coding agents was announced today by the team'',
       ''https://x.com/alice/4'', ''3'', ''Original Tweet'', ''conv4'']]"

section \<open>The ownership pattern\<close>













section \<open>Consolidator\<close>



lemma first_missing_None: "set names \<subseteq> set cols \<Longrightarrow> first_missing cols names = None"
  by (auto simp: first_missing_def find_None_iff)

lemma consolidation_columns_present:
  assumes "set consolidation_columns \<subseteq> set cols"
  shows "first_missing cols [''First Tweet Timestamp'', ''Tweet Text''] = None"
    and "first_missing cols first_tweet_columns = None"
    and "first_missing cols (first_tweet_columns @ [''Tweet Type'']) = None"
  using assms by (auto intro!: first_missing_None simp: consolidation_columns_def)

lemma eq_ci_word: "eq_ci a b \<Longrightarrow> is_word a \<Longrightarrow> is_word b"
  by (auto simp: eq_ci_def casefold_def is_word_def split: if_splits)

text \<open>
  For an author whose name is a user name (not empty, word characters only), what follows
  the \<open>@\<close> names the author exactly when it begins with the author's name, ignoring
  case, and no word character follows the name.
\<close>

lemma names_author_username:
  assumes "author \<noteq> []" "\<forall>c\<in>set author. is_word c"
  shows "names_author author s \<longleftrightarrow>
         (\<exists>m tail. s = m @ tail \<and> list_all2 eq_ci author m \<and> \<not> word_at (head_of tail))"
proof -
  have "word_at (Some (last (CHR ''@'' # m)))" if "list_all2 eq_ci author m" for m
  proof -
    have len: "length m = length author" "m \<noteq> []"
      using that assms(1) by (auto dest: list_all2_lengthD)
    then have "eq_ci (last author) (last m)"
      using that assms(1) by (simp add: last_conv_nth list_all2_conv_all_nth)
    moreover have "is_word (last author)" using assms by simp
    ultimately have "is_word (last m)" by (rule eq_ci_word)
    then show ?thesis using len(2) by (simp add: word_at_def)
  qed
  then show ?thesis unfolding names_author_def by blast
qed





subsection \<open>Scenarios A and B\<close>












section \<open>State Loader\<close>








section \<open>Sync Engine\<close>














section \<open>Rewrite Engine\<close>



lemma on_exception_attempt:
  assumes "\<And>n r n'. f n = (Inr r, n') \<Longrightarrow> P r"
  shows "on_exception k f n = (Inr r, n') \<Longrightarrow> P r"
proof (induction k arbitrary: n)
  case 0
  then show ?case using assms by simp
next
  case (Suc k)
  then show ?case using assms
    by (auto split: prod.splits sum.splits if_splits)
qed

lemma rewrite_attempt_ok:
  assumes "replies_are_rewrites gemini" "rewrite_attempt gemini t n = (Inr r, n')"
  shows "rewritten_ok (fst r) \<and> rewritten_ok (snd r)"
  using assms
  by (auto simp: rewrite_attempt_def replies_are_rewrites_def Let_def split: sum.splits)

lemma rewrite_text_gemini_ok:
  assumes "replies_are_rewrites gemini" "rewrite_text_gemini gemini t n = (Inr (en, ru), n')"
  shows "rewritten_ok en \<and> rewritten_ok ru"
proof -
  have "rewritten_ok (fst (en, ru)) \<and> rewritten_ok (snd (en, ru))"
    using assms(2) unfolding rewrite_text_gemini_def
    by (rule on_exception_attempt [rotated]) (rule rewrite_attempt_ok [OF assms(1)])
  then show ?thesis by simp
qed

lemma sentinels:
  "error_sentinel ''Error: Empty Source Text''"
  "error_sentinel ''Error: Rewrite Failed (EN)''"
  "error_sentinel ''Error: Rewrite Failed (RU)''"
  by (simp_all add: error_sentinel_def startswith_def)

lemma rewrite_item_atomic:
  assumes "replies_are_rewrites gemini" "rewrite_item gemini n row = (result_row, n', ok)"
  shows "atomic_fields (astype_str (result_row ''Rewritten EN'')) (astype_str (result_row ''Rewritten RU''))"
proof -
  consider (empty) "result_row ''Rewritten EN'' = Str ''Error: Empty Source Text''"
                   "result_row ''Rewritten RU'' = Str ''Error: Empty Source Text''"
    | (failed) "result_row ''Rewritten EN'' = Str ''Error: Rewrite Failed (EN)''"
               "result_row ''Rewritten RU'' = Str ''Error: Rewrite Failed (RU)''"
    | (rewritten) en ru m where "rewrite_text_gemini gemini (astype_str (row ''Combined Original Text'')) n = (Inr (en, ru), m)"
               "result_row ''Rewritten EN'' = Str en" "result_row ''Rewritten RU'' = Str ru"
    using assms(2) unfolding rewrite_item_def Let_def
    by (auto split: if_splits prod.splits sum.splits)
  then show ?thesis
  proof cases
    case empty
    then show ?thesis by (simp add: atomic_fields_def astype_str_def sentinels)
  next
    case failed
    then show ?thesis by (simp add: atomic_fields_def astype_str_def sentinels)
  next
    case rewritten
    then show ?thesis
      using rewrite_text_gemini_ok [OF assms(1) rewritten(1)] by (simp add: atomic_fields_def astype_str_def)
  qed
qed

lemma final_row_fields:
  "final_row_for_csv r ! 14 = astype_str (r ''Rewritten EN'')"
  "final_row_for_csv r ! 15 = astype_str (r ''Rewritten RU'')"
  by (simp_all add: final_row_for_csv_def TARGET_COLUMNS_def)

lemma rewrite_loop_records:
  assumes "replies_are_rewrites gemini"
  shows "rec \<in> set (log_file (rewrite_loop gemini write_fails units st)) \<Longrightarrow>
         rec \<in> set (log_file st) \<or> rec = TARGET_COLUMNS \<or> atomic_record rec"
proof (induction units arbitrary: st)
  case Nil
  then show ?case by simp
next
  case (Cons row rest)
  obtain result_row n' ok where item: "rewrite_item gemini (calls st) row = (result_row, n', ok)"
    by (metis prod_cases3)
  define with_header where "with_header = (if log_file st = [] then [TARGET_COLUMNS] else log_file st)"
  define written where "written = (if write_fails (processed_count st + failed_count st + 1) then with_header
                     else with_header @ [final_row_for_csv result_row])"
  define st' where "st' = \<lparr>log_file = written, calls = n',
            processed_count = (if ok then processed_count st + 1 else processed_count st),
            failed_count = (if ok then failed_count st else failed_count st + 1)\<rparr>"
  have step: "rewrite_loop gemini write_fails (row # rest) st = rewrite_loop gemini write_fails rest st'"
    by (simp add: item Let_def st'_def written_def with_header_def)
  then have "rec \<in> set (log_file st') \<or> rec = TARGET_COLUMNS \<or> atomic_record rec"
    using Cons by simp
  moreover have "atomic_record (final_row_for_csv result_row)"
    using rewrite_item_atomic [OF assms item] by (simp add: atomic_record_def final_row_fields)
  ultimately show ?case
    by (auto simp: st'_def written_def with_header_def split: if_splits)
qed

lemma rewrite_item_failed:
  assumes "rewrite_item gemini n row = (result_row, n', False)"
  shows "error_sentinel (astype_str (result_row ''Rewritten EN'')) \<and>
         error_sentinel (astype_str (result_row ''Rewritten RU''))"
  using assms unfolding rewrite_item_def Let_def
  by (auto simp: astype_str_def sentinels split: if_splits prod.splits sum.splits)

text \<open>
  Claim C3, amended. When every text the service returns is, once stripped, non-empty and
  does not begin with \<open>Error:\<close>: every record that the rewrite loop appends to the local
  log has either two rewrite fields that are both non-empty and free of the sentinel prefix,
  or two rewrite fields that both begin with it. For any service: an item that does not
  count as processed (blank source text, or a call that failed in each of the three tries,
  in either language) gets an error sentinel in both fields.
\<close>

theorem rewrite_fields_atomic:
  "(replies_are_rewrites gemini \<longrightarrow>
      (\<forall>rec\<in>set (log_file (rewrite_loop gemini write_fails units st)).
           rec \<in> set (log_file st) \<or> rec = TARGET_COLUMNS \<or> atomic_record rec))
   \<and> (\<forall>n row result_row n'. rewrite_item gemini n row = (result_row, n', False) \<longrightarrow>
         error_sentinel (astype_str (result_row ''Rewritten EN'')) \<and>
         error_sentinel (astype_str (result_row ''Rewritten RU'')))"
proof (intro conjI impI allI ballI)
  fix rec
  assume "replies_are_rewrites gemini" "rec \<in> set (log_file (rewrite_loop gemini write_fails units st))"
  then show "rec \<in> set (log_file st) \<or> rec = TARGET_COLUMNS \<or> atomic_record rec"
    by (rule rewrite_loop_records)
next
  fix n row result_row n'
  assume "rewrite_item gemini n row = (result_row, n', False)"
  then show "error_sentinel (astype_str (result_row ''Rewritten EN''))"
    "error_sentinel (astype_str (result_row ''Rewritten RU''))"
    using rewrite_item_failed by blast+
qed


text \<open>
  Claim C3 as stated fails when a call of the service succeeds with a blank text: the text
  is stored as it is, stripped, next to the rewrite of the other language.
\<close>

theorem rewrite_fields_counterexample:
  "log_file (rewrite_loop gemini_blank_english (\<lambda>k. False)
       [unit_row ''https://x.com/alice/1'' ''A new model release for coding agents was announced today by the team''] empty_log) ! 1 ! 14 = []
   \<and> log_file (rewrite_loop gemini_blank_english (\<lambda>k. False)
       [unit_row ''https://x.com/alice/1'' ''A new model release for coding agents was announced today by the team''] empty_log) ! 1 ! 15 = ''Privet''
   \<and> \<not> atomic_record (log_file (rewrite_loop gemini_blank_english (\<lambda>k. False)
       [unit_row ''https://x.com/alice/1'' ''A new model release for coding agents was announced today by the team''] empty_log) ! 1)"
  by code_simp

lemma strip_examples: "strip ''Hello '' = ''Hello''" "strip ''Privet'' = ''Privet''"
  by code_simp+

lemma gemini_fails_twice_rewrites: "replies_are_rewrites gemini_fails_twice"
  unfolding replies_are_rewrites_def gemini_fails_twice_def
  by (auto simp: strip_examples rewritten_ok_def startswith_def split: if_splits lang.splits)

lemma fails_twice_run:
  "log_file (rewrite_loop gemini_fails_twice (\<lambda>k. False)
       [unit_row ''https://x.com/alice/1'' ''A new model release for coding agents was announced today by the team''] empty_log) ! 1 ! 14 = ''Hello''"
  "log_file (rewrite_loop gemini_fails_twice (\<lambda>k. False)
       [unit_row ''https://x.com/alice/1'' ''A new model release for coding agents was announced today by the team''] empty_log) ! 1 ! 15 = ''Privet''"
  "calls (rewrite_loop gemini_fails_twice (\<lambda>k. False)
       [unit_row ''https://x.com/alice/1'' ''A new model release for coding agents was announced today by the team''] empty_log) = 5"
  "length (log_file (rewrite_loop gemini_fails_twice (\<lambda>k. False)
       [unit_row ''https://x.com/alice/1'' ''A new model release for coding agents was announced today by the team''] empty_log)) = 2"
  "log_file (rewrite_loop gemini_fails_twice (\<lambda>k. False)
       [unit_row ''https://x.com/alice/1'' ''A new model release for coding agents was announced today by the team''] empty_log) ! 1 \<noteq> TARGET_COLUMNS"
  by code_simp+

lemma down_run:
  "snd (snd (rewrite_item gemini_down 0 (unit_row ''https://x.com/alice/1'' ''A new model release for coding agents was announced today by the team''))) = False"
  "fst (snd (rewrite_item gemini_down 0 (unit_row ''https://x.com/alice/1'' ''A new model release for coding agents was announced today by the team''))) = 3"
  by code_simp+

theorem rewrite_fields_atomic_witness:
  "replies_are_rewrites gemini_fails_twice
   \<and> calls (rewrite_loop gemini_fails_twice (\<lambda>k. False)
       [unit_row ''https://x.com/alice/1'' ''A new model release for coding agents was announced today by the team''] empty_log) = 5
   \<and> log_file (rewrite_loop gemini_fails_twice (\<lambda>k. False)
       [unit_row ''https://x.com/alice/1'' ''A new model release for coding agents was announced today by the team''] empty_log) ! 1 ! 14 = ''Hello''
   \<and> atomic_record (log_file (rewrite_loop gemini_fails_twice (\<lambda>k. False)
       [unit_row ''https://x.com/alice/1'' ''A new model release for coding agents was announced today by the team''] empty_log) ! 1)
   \<and> fst (snd (rewrite_item gemini_down 0 (unit_row ''https://x.com/alice/1'' ''A new model release for coding agents was announced today by the team''))) = 3
   \<and> error_sentinel (astype_str (fst (rewrite_item gemini_down 0
         (unit_row ''https://x.com/alice/1'' ''A new model release for coding agents was announced today by the team'')) ''Rewritten EN''))
   \<and> error_sentinel (astype_str (fst (rewrite_item gemini_down 0
         (unit_row ''https://x.com/alice/1'' ''A new model release for coding agents was announced today by the team'')) ''Rewritten RU''))"
proof -
  define unit where "unit = unit_row ''https://x.com/alice/1'' ''A new model release for coding agents was announced today by the team''"
  define final where "final = rewrite_loop gemini_fails_twice (\<lambda>k. False) [unit] empty_log"
  define item where "item = rewrite_item gemini_down 0 unit"
  note run = fails_twice_run [folded unit_def, folded final_def]
  note down = down_run [folded unit_def, folded item_def]
  note records = rewrite_fields_atomic [of gemini_fails_twice "\<lambda>k. False" "[unit]" empty_log,
      THEN conjunct1, rule_format, OF gemini_fails_twice_rewrites, folded final_def]
  note failed = rewrite_fields_atomic [of gemini_down "\<lambda>k. False" "[]" empty_log,
      THEN conjunct2, rule_format]
  have "1 < length (log_file final)" using run(4) by simp
  then have "log_file final ! 1 \<in> set (log_file final)" by (rule nth_mem)
  then have "log_file final ! 1 \<in> set (log_file empty_log) \<or> log_file final ! 1 = TARGET_COLUMNS
      \<or> atomic_record (log_file final ! 1)"
    by (rule records)
  moreover have "log_file empty_log = []" by (simp add: empty_log_def)
  ultimately have atomic: "atomic_record (log_file final ! 1)"
    using run(5) by simp
  have "item = (fst item, fst (snd item), False)"
    using down(1) by (cases item) simp
  then have "rewrite_item gemini_down 0 unit = (fst item, fst (snd item), False)"
    using item_def by simp
  then have "error_sentinel (astype_str (fst item ''Rewritten EN''))
      \<and> error_sentinel (astype_str (fst item ''Rewritten RU''))"
    by (rule failed)
  with atomic have "replies_are_rewrites gemini_fails_twice
   \<and> calls final = 5 \<and> log_file final ! 1 ! 14 = ''Hello'' \<and> atomic_record (log_file final ! 1)
   \<and> fst (snd item) = 3
   \<and> error_sentinel (astype_str (fst item ''Rewritten EN''))
   \<and> error_sentinel (astype_str (fst item ''Rewritten RU''))"
    using gemini_fails_twice_rewrites run(1,3) down(2) by blast
  then show ?thesis
    unfolding item_def final_def unit_def .
qed


section \<open>Notification and exit status\<close>

text \<open>
  Claim C9 (notification). For every script, every setting of token and chat, every
  behaviour of the transport and every message: the call returns to its caller without an
  exception, and what it hands to the transport, when both settings are present, is the
  first 4096 characters of the message, once.
\<close>

theorem notification_never_raises:
  "fst (send_telegram_notification script token chat_id post message) = Inr ()
   \<and> snd (send_telegram_notification script token chat_id post message)
       = (if falsy token \<or> falsy chat_id then [] else [take 4096 message])
   \<and> length (take 4096 message) \<le> 4096"
  by (simp add: send_telegram_notification_def Let_def split: sum.splits)

theorem notification_never_raises_witness:
  "fst (send_telegram_notification Analyzer (Some ''token'') (Some ''42'') (\<lambda>p. Post_raises OtherException)
          (replicate 5000 (CHR ''a''))) = Inr ()
   \<and> snd (send_telegram_notification Analyzer (Some ''token'') (Some ''42'') (\<lambda>p. Post_raises OtherException)
          (replicate 5000 (CHR ''a''))) = [replicate 4096 (CHR ''a'')]
   \<and> fst (send_telegram_notification Twitter_scraper (Some ''token'') (Some ''42'') (\<lambda>p. Response True) []) = Inr ()
   \<and> try_send Twitter_scraper (\<lambda>p. Response True) [] = Inl IndexError"
  using notification_never_raises [of Analyzer "Some ''token''" "Some ''42''" "\<lambda>p. Post_raises OtherException"
      "replicate 5000 (CHR ''a'')"]
    notification_never_raises [of Twitter_scraper "Some ''token''" "Some ''42''" "\<lambda>p. Response True" "[]"]
  by (simp add: falsy_def try_send_def first_line_def)




section \<open>Twitter scraper\<close>

lemma Max_insert2: "finite A \<Longrightarrow> Max (insert a (insert b A)) = max b (Max (insert a A))"
  by (subst insert_commute) (rule Max_insert; simp)

lemma Max_insert_max:
  assumes "finite A"
  shows "Max (insert (max b a) A) = max b (Max (insert a A))"
proof (cases "A = {}")
  case True
  then show ?thesis by simp
next
  case False
  then show ?thesis using assms by (simp add: max.assoc)
qed

lemma process_new_tweets_max:
  "fst (process_new_tweets username uid dname ts (m, c, s)) = Max (insert m (tweet_id ` set ts))"
proof (induction ts arbitrary: m c s)
  case Nil
  then show ?case by simp
next
  case (Cons t ts)
  have fin: "finite (tweet_id ` set ts)" by simp
  have step: "(if tweet_id t > m then tweet_id t else m) = max (tweet_id t) m" by (simp add: max_def)
  have "fst (process_new_tweets username uid dname (t # ts) (m, c, s))
      = Max (insert (max (tweet_id t) m) (tweet_id ` set ts))"
    unfolding process_new_tweets.simps Let_def step using Cons.IH by (simp split: if_splits)
  also have "\<dots> = max (tweet_id t) (Max (insert m (tweet_id ` set ts)))"
    by (rule Max_insert_max [OF fin])
  also have "\<dots> = Max (insert m (insert (tweet_id t) (tweet_id ` set ts)))"
    by (rule Max_insert2 [OF fin, symmetric])
  finally show ?case by simp
qed

lemma foldr_max: "foldr (\<lambda>t m. max (tweet_id t) m) ts a = Max (insert a (tweet_id ` set ts))"
proof (induction ts)
  case Nil
  then show ?case by simp
next
  case (Cons t ts)
  have "foldr (\<lambda>t m. max (tweet_id t) m) (t # ts) a = max (tweet_id t) (Max (insert a (tweet_id ` set ts)))"
    using Cons by simp
  also have "\<dots> = Max (insert a (insert (tweet_id t) (tweet_id ` set ts)))"
    by (rule Max_insert2 [symmetric]) simp
  finally show ?case by simp
qed

lemma max_id_Max: "ts \<noteq> [] \<Longrightarrow> max_id ts = Max (tweet_id ` set ts)"
  by (cases ts) (simp_all add: max_id_def foldr_max [of "_ # _"] insert_absorb del: foldr.simps Max_insert)

lemma Max_new_tweets:
  assumes "filter (\<lambda>t. tweet_id t > l) ts \<noteq> []"
  shows "Max (insert l (tweet_id ` set (filter (\<lambda>t. tweet_id t > l) ts))) = Max (tweet_id ` set ts)"
    and "l < Max (tweet_id ` set ts)"
proof -
  obtain t0 where t0: "t0 \<in> set ts" "tweet_id t0 > l"
    using assms by (metis (mono_tags, lifting) filter_False)
  have fin: "finite (tweet_id ` set ts)" and ne: "tweet_id ` set ts \<noteq> {}"
    using t0 by auto
  have "tweet_id t0 \<le> Max (tweet_id ` set ts)" using t0(1) fin by simp
  then show bound: "l < Max (tweet_id ` set ts)" using t0(2) by simp
  obtain t where t: "t \<in> set ts" "tweet_id t = Max (tweet_id ` set ts)"
    using Max_in [OF fin ne] by auto
  show "Max (insert l (tweet_id ` set (filter (\<lambda>t. tweet_id t > l) ts))) = Max (tweet_id ` set ts)"
  proof (rule Max_eqI)
    show "finite (insert l (tweet_id ` set (filter (\<lambda>t. tweet_id t > l) ts)))" by simp
    show "Max (tweet_id ` set ts) \<in> insert l (tweet_id ` set (filter (\<lambda>t. tweet_id t > l) ts))"
      using t bound by force
    fix y assume "y \<in> insert l (tweet_id ` set (filter (\<lambda>t. tweet_id t > l) ts))"
    then show "y \<le> Max (tweet_id ` set ts)"
      using bound fin by auto
  qed
qed

lemma no_new_tweets:
  assumes "filter (\<lambda>t. tweet_id t > l) ts = []" "ts \<noteq> []"
  shows "\<not> max_id ts > l"
proof -
  have "\<forall>t\<in>set ts. tweet_id t \<le> l"
    using assms(1) by (auto simp: filter_empty_conv)
  then have "Max (tweet_id ` set ts) \<le> l"
    using assms(2) by simp
  then show ?thesis using max_id_Max [OF assms(2)] by simp
qed

lemma scrape_user_state:
  "last_seen_state (scrape_user keys (u, api) st) = last_seen_state st
   \<or> (\<exists>ts. fetched api = Inr ts \<and> ts \<noteq> [] \<and>
         get_last_seen (last_seen_state st) u < Max (tweet_id ` set ts) \<and>
         last_seen_state (scrape_user keys (u, api) st) = (last_seen_state st)(u \<mapsto> Max (tweet_id ` set ts)))"
proof (cases "profile api")
  case (Inl e)
  then show ?thesis by (simp add: scrape_user_def)
next
  case (Inr found)
  show ?thesis
  proof (cases found)
    case None
    with Inr show ?thesis by (simp add: scrape_user_def)
  next
    case (Some usr)
    show ?thesis
    proof (cases "fetched api")
      case (Inl e)
      with Inr Some show ?thesis by (simp add: scrape_user_def)
    next
      case fetched: (Inr ts)
      define l where "l = get_last_seen (last_seen_state st) u"
      define new where "new = filter (\<lambda>t. tweet_id t > l) ts"
      show ?thesis
      proof (cases "new = []")
        case True
        then have "ts \<noteq> [] \<Longrightarrow> \<not> max_id ts > l"
          using no_new_tweets [of l ts] by (simp add: new_def)
        then have "last_seen_state (scrape_user keys (u, api) st) = last_seen_state st"
          using Inr Some fetched True
          by (auto simp: scrape_user_def Let_def l_def [symmetric] new_def [symmetric])
        then show ?thesis by simp
      next
        case False
        obtain m c s where run: "process_new_tweets u (str_of_int (user_id usr))
             (case displayname usr of None \<Rightarrow> ''N/A'' | Some n \<Rightarrow> n) (rev new)
             (l, all_rows_to_append st, processed_tweet_ids_this_run st) = (m, c, s)"
          by (metis prod_cases3)
        have "m = Max (insert l (tweet_id ` set (rev new)))"
          using process_new_tweets_max [of u "str_of_int (user_id usr)"
              "case displayname usr of None \<Rightarrow> ''N/A'' | Some n \<Rightarrow> n" "rev new" l
              "all_rows_to_append st" "processed_tweet_ids_this_run st"] run by simp
        then have m: "m = Max (tweet_id ` set ts)" "l < m"
          using Max_new_tweets [of l ts] False by (simp_all add: new_def)
        have "ts \<noteq> []" using False by (auto simp: new_def)
        moreover have "last_seen_state (scrape_user keys (u, api) st) = (last_seen_state st)(u \<mapsto> m)"
          using Inr Some fetched False run m(2)
          by (simp add: scrape_user_def Let_def l_def [symmetric] new_def [symmetric])
        ultimately show ?thesis
          using fetched m by (auto simp: l_def)
      qed
    qed
  qed
qed

lemma scrape_user_monotone:
  "get_last_seen (last_seen_state st) x \<le> get_last_seen (last_seen_state (scrape_user keys target st)) x
   \<and> dom (last_seen_state st) \<subseteq> dom (last_seen_state (scrape_user keys target st))"
  using scrape_user_state [of keys "fst target" "snd target" st]
  by (auto simp: get_last_seen_def)

lemma scrape_users_monotone:
  "get_last_seen (last_seen_state st) x \<le> get_last_seen (last_seen_state (fold (scrape_user keys) targets st)) x
   \<and> dom (last_seen_state st) \<subseteq> dom (last_seen_state (fold (scrape_user keys) targets st))"
proof (induction targets arbitrary: st)
  case Nil
  then show ?case by simp
next
  case (Cons target targets)
  show ?case
    using scrape_user_monotone [of st x keys target] Cons.IH [of "scrape_user keys target st"]
    by (auto intro: order_trans)
qed

lemma run_scrape_cycle_state:
  "last_seen_state (fst (run_scrape_cycle hc ar sr targets last_seen keys))
   = last_seen_state (fold (scrape_user keys) targets
       \<lparr>last_seen_state = last_seen, all_rows_to_append = [], processed_tweet_ids_this_run = {},
        cycle_errors = (case hc of Some (Inl e) \<Rightarrow> [''Failed to check/write header''] | _ \<Rightarrow> [])\<rparr>)"
  by (simp add: run_scrape_cycle_def Let_def)

text \<open>
  Claim C10 (last-seen identifiers). Across a scrape cycle, the last-seen identifier of
  every user name, read with default 0 as the cycle reads it, does not decrease, and no
  stored entry is removed. One user's step either leaves the stored state as it is, or sets
  the entry of that user to the greatest identifier among the tweets fetched, which is then
  greater than the previous value.
\<close>

theorem last_seen_never_decreases:
  "(\<forall>username. get_last_seen last_seen username
        \<le> get_last_seen (last_seen_state (fst (run_scrape_cycle hc ar sr targets last_seen keys))) username)
   \<and> dom last_seen \<subseteq> dom (last_seen_state (fst (run_scrape_cycle hc ar sr targets last_seen keys)))
   \<and> (\<forall>st u api.
         last_seen_state (scrape_user keys (u, api) st) = last_seen_state st
         \<or> (\<exists>ts. fetched api = Inr ts \<and> ts \<noteq> [] \<and>
               get_last_seen (last_seen_state st) u < Max (tweet_id ` set ts) \<and>
               last_seen_state (scrape_user keys (u, api) st)
                 = (last_seen_state st)(u \<mapsto> Max (tweet_id ` set ts))))"
proof (intro conjI allI)
  fix username
  show "get_last_seen last_seen username
        \<le> get_last_seen (last_seen_state (fst (run_scrape_cycle hc ar sr targets last_seen keys))) username"
    unfolding run_scrape_cycle_state
    using scrape_users_monotone [of "\<lparr>last_seen_state = last_seen, all_rows_to_append = [],
        processed_tweet_ids_this_run = {},
        cycle_errors = (case hc of Some (Inl e) \<Rightarrow> [''Failed to check/write header''] | _ \<Rightarrow> [])\<rparr>"
        username keys targets]
    by simp
next
  show "dom last_seen \<subseteq> dom (last_seen_state (fst (run_scrape_cycle hc ar sr targets last_seen keys)))"
    unfolding run_scrape_cycle_state
    using scrape_users_monotone [of "\<lparr>last_seen_state = last_seen, all_rows_to_append = [],
        processed_tweet_ids_this_run = {},
        cycle_errors = (case hc of Some (Inl e) \<Rightarrow> [''Failed to check/write header''] | _ \<Rightarrow> [])\<rparr>"
        _ keys targets]
    by simp
next
  fix st u api
  show "last_seen_state (scrape_user keys (u, api) st) = last_seen_state st
         \<or> (\<exists>ts. fetched api = Inr ts \<and> ts \<noteq> [] \<and>
               get_last_seen (last_seen_state st) u < Max (tweet_id ` set ts) \<and>
               last_seen_state (scrape_user keys (u, api) st)
                 = (last_seen_state st)(u \<mapsto> Max (tweet_id ` set ts)))"
    by (rule scrape_user_state)
qed

lemma alice_cycle:
  "last_seen_state (fst (run_scrape_cycle None False False [(''alice'', alice_lookup)]
       [''alice'' \<mapsto> 100] {''alice''})) ''alice'' = Some 120"
  "length (all_rows_to_append (fst (run_scrape_cycle None False False [(''alice'', alice_lookup)]
       [''alice'' \<mapsto> 100] {''alice''}))) = 2"
  by code_simp+

theorem last_seen_never_decreases_witness:
  "get_last_seen [''alice'' \<mapsto> 100] ''alice'' = 100
   \<and> last_seen_state (fst (run_scrape_cycle None False False [(''alice'', alice_lookup)]
       [''alice'' \<mapsto> 100] {''alice''})) ''alice'' = Some 120
   \<and> length (all_rows_to_append (fst (run_scrape_cycle None False False [(''alice'', alice_lookup)]
       [''alice'' \<mapsto> 100] {''alice''}))) = 2
   \<and> get_last_seen [''alice'' \<mapsto> 100] ''alice''
       \<le> get_last_seen (last_seen_state (fst (run_scrape_cycle None False False [(''alice'', alice_lookup)]
       [''alice'' \<mapsto> 100] {''alice''}))) ''alice''"
proof -
  have "get_last_seen [''alice'' \<mapsto> 100] ''alice''
       \<le> get_last_seen (last_seen_state (fst (run_scrape_cycle None False False [(''alice'', alice_lookup)]
       [''alice'' \<mapsto> 100] {''alice''}))) ''alice''"
    using last_seen_never_decreases [of "[''alice'' \<mapsto> 100]" None False False "[(''alice'', alice_lookup)]" "{''alice''}"]
    by blast
  moreover have "get_last_seen [''alice'' \<mapsto> 100] ''alice'' = 100"
    by (simp add: get_last_seen_def)
  ultimately show ?thesis using alice_cycle by simp
qed

section \<open>The analyzer run\<close>

lemma read_source_sheet_columns:
  assumes "read_source_sheet s = (Some df, evs)"
  shows "set TARGET_COLUMNS \<subseteq> set (columns df)"
  using assms
  by (auto simp: read_source_sheet_def split: sheet_read.splits if_splits sum.splits)

lemma read_source_sheet_events: "Sync_call \<notin> set (snd (read_source_sheet s))"
  by (auto simp: read_source_sheet_def split: sheet_read.splits if_splits sum.splits)

lemma read_events_no_sync: "Sync_call \<notin> set (concat (map snd (map read_source_sheet sheets)))"
  using read_source_sheet_events by auto

lemma source_frames_columns:
  assumes "source_frames e \<noteq> []"
  shows "set TARGET_COLUMNS \<subseteq> set (columns (concat_frames (source_frames e)))"
proof -
  obtain df where df: "df \<in> set (source_frames e)"
    using assms by (cases "source_frames e") auto
  then obtain s where "fst (read_source_sheet s) = Some df"
    by (auto simp: source_frames_def List.map_filter_def)
  then have "set TARGET_COLUMNS \<subseteq> set (columns df)"
    using read_source_sheet_columns [of s df "snd (read_source_sheet s)"] by (metis prod.collapse)
  then show ?thesis using df by (auto simp: concat_frames_def)
qed

lemma preprocess_rows_returns:
  assumes "\<forall>c. \<not> isl (to_numeric c)"
  shows "\<exists>rs'. preprocess_rows to_numeric cols rs = Inr rs'"
proof (induction rs)
  case Nil
  then show ?case by simp
next
  case (Cons r rs)
  have "find (\<lambda>c. c \<in> set cols \<and> isl (to_numeric (r c))) num_cols_in_target = None"
    using assms by (simp add: find_None_iff)
  then have "\<exists>r'. preprocess_row to_numeric cols r = Inr r'"
    by (simp add: preprocess_row_def)
  then show ?case using Cons by auto
qed

lemma consolidate_group_returns:
  assumes "set consolidation_columns \<subseteq> set cols"
  shows "\<exists>u. consolidate_group platform now cols name grp = Inr u"
  by (simp add: consolidate_group_def consolidation_columns_present [OF assms] Let_def)

lemma consolidate_groups_returns:
  assumes "set consolidation_columns \<subseteq> set cols"
  shows "\<exists>us. consolidate_groups platform now cols rs names = Inr us"
proof (induction names)
  case Nil
  then show ?case by simp
next
  case (Cons name names)
  obtain u where "consolidate_group platform now cols name (group_rows name rs) = Inr u"
    using consolidate_group_returns [OF assms] by blast
  then show ?case using Cons by auto
qed

lemma parsed_and_sorted_returns:
  assumes "\<forall>c c'. parse_datetime e c \<noteq> None \<and> parse_datetime e c' \<noteq> None \<longrightarrow>
             fst (the (parse_datetime e c)) = fst (the (parse_datetime e c'))"
  shows "\<exists>s. parsed_and_sorted e consolidated = Inr s"
proof -
  define parsed where "parsed = filter (\<lambda>r. parse_datetime e (r ''First Tweet Timestamp'') \<noteq> None) consolidated"
  define zones where "zones = map (\<lambda>r. fst (the (parse_datetime e (r ''First Tweet Timestamp'')))) parsed"
  have "\<not> (True \<in> set zones \<and> False \<in> set zones)"
  proof
    assume "True \<in> set zones \<and> False \<in> set zones"
    then obtain r r' where "r \<in> set parsed" "r' \<in> set parsed"
      "fst (the (parse_datetime e (r ''First Tweet Timestamp'')))"
      "\<not> fst (the (parse_datetime e (r' ''First Tweet Timestamp'')))"
      by (auto simp: zones_def)
    then show False using assms by (auto simp: parsed_def)
  qed
  moreover have "parsed_and_sorted e consolidated =
      (if True \<in> set zones \<and> False \<in> set zones then Inl (Failure ''TypeError'')
       else Inr (sort_key (\<lambda>r. (sort_cell_key (r ''Original Username''),
                               sort_cell_key (r ''Conversation ID''),
                               snd (the (parse_datetime e (r ''First Tweet Timestamp''))))) parsed))"
    by (simp only: parsed_and_sorted_def Let_def parsed_def zones_def)
  ultimately show ?thesis by simp
qed

lemma process_consolidated_syncs:
  assumes "\<not> open_raises e"
      and "\<exists>s. parsed_and_sorted e processed_rows = Inr s"
  shows "\<exists>post. events (process_consolidated e earlier urls processed_rows)
           = earlier @ sync_step e (final_file (process_consolidated e earlier urls processed_rows)) @ post
         \<and> Sync_call \<notin> set post
         \<and> raised (process_consolidated e earlier urls processed_rows) = None"
proof -
  obtain s where s: "parsed_and_sorted e processed_rows = Inr s" using assms(2) by blast
  show ?thesis
    unfolding process_consolidated_def Let_def s using assms(1)
    by (simp split: if_splits)
qed

text \<open>
  Claim C2, amended. For every run of \<open>process_data\<close> in which a source sheet gives
  data, the table has the columns the Consolidator reads, and no step raises (the numeric
  conversion, the sort of the timestamps, opening the local log): the Sync Engine is
  entered exactly once, on the records that the local log holds at the end of the run, and
  only notifications follow it. That covers the runs that end early because no group, no
  unit of an allowed content type or no unit that passes the filters is left.
\<close>

theorem sync_after_consolidation:
  assumes "source_frames e \<noteq> []"
      and "set consolidation_columns \<subseteq> set (columns (concat_frames (source_frames e)))"
      and "\<forall>c. \<not> isl (pd_to_numeric e c)"
      and "\<forall>c c'. parse_datetime e c \<noteq> None \<and> parse_datetime e c' \<noteq> None \<longrightarrow>
             fst (the (parse_datetime e c)) = fst (the (parse_datetime e c'))"
      and "\<not> open_raises e"
  shows "\<exists>pre post. events (process_data e) = pre @ sync_step e (final_file (process_data e)) @ post
           \<and> Sync_call \<notin> set pre \<and> Sync_call \<notin> set post
           \<and> raised (process_data e) = None"
proof -
  define df_src where "df_src = concat_frames (source_frames e)"
  define read_events where "read_events = concat (map snd (map read_source_sheet (source_worksheets e)))"
  have frames: "List.map_filter fst (map read_source_sheet (source_worksheets e)) \<noteq> []"
    using assms(1) by (simp add: source_frames_def)
  have "set required_process_cols \<subseteq> set (columns df_src)"
    using source_frames_columns [OF assms(1)] assms(2)
    by (auto simp: df_src_def required_process_cols_def TARGET_COLUMNS_def consolidation_columns_def)
  then have required: "list_all (\<lambda>col. col \<in> set (columns df_src)) required_process_cols"
    by (auto simp: list_all_iff)
  obtain src_rows where src: "preprocess_rows (pd_to_numeric e) (columns df_src) (rows df_src) = Inr src_rows"
    using preprocess_rows_returns [OF assms(3)] by blast
  obtain processed_rows where cons:
    "consolidate_groups (PLATFORM e) (clock e) (columns df_src) src_rows (group_keys src_rows) = Inr processed_rows"
    using consolidate_groups_returns [OF assms(2)] unfolding df_src_def by blast
  have run: "process_data e = process_consolidated e read_events
      (processed_urls_local e \<union> processed_urls_gsheet e) processed_rows"
    using frames required src cons
    by (simp add: process_data_def Let_def source_frames_def [symmetric] df_src_def [symmetric]
        read_events_def)
  obtain post where post: "events (process_data e) = read_events @ sync_step e (final_file (process_data e)) @ post"
    "Sync_call \<notin> set post" "raised (process_data e) = None"
    using process_consolidated_syncs [OF assms(5) parsed_and_sorted_returns [OF assms(4)]]
    unfolding run by blast
  moreover have "Sync_call \<notin> set read_events"
    unfolding read_events_def by (rule read_events_no_sync)
  ultimately show ?thesis by blast
qed

text \<open>
  Claim C2 as stated fails: a run whose source sheet lacks the text column ends before the
  Sync Engine, and so does a run that reads no source data, while the local log holds two
  records that the target sheet does not have and that the Sync Engine would upload.
\<close>

theorem sync_every_run_counterexample:
  "events (process_data (run_with [sheet_without_text])) = []
   \<and> events (process_data (run_with [sheet_without_rows]))
        = [Notify ''Analyzer run finished: No source data found.'']
   \<and> sync_step (run_with [sheet_without_text]) (LOCAL_STATE_FILE (run_with [sheet_without_text]))
        = [Sync_call, AppendRows
             [log_record ''https://x.com/alice/1'' ''Hello'' ''Privet'',
              log_record ''https://x.com/alice/2'' ''Error: Rewrite Failed (EN)'' ''Error: Rewrite Failed (RU)'']]"
  by code_simp

lemma long_post_run:
  "set consolidation_columns \<subseteq> set (columns (concat_frames (source_frames (run_with [sheet_long_post]))))"
  "length (final_file (process_data (run_with [sheet_long_post]))) = 4"
  "final_file (process_data (run_with [sheet_long_post])) ! 3 ! 14 = ''Hello''"
  "events (process_data (run_with [sheet_short_post])) ! 0 = Sync_call"
  by code_simp+

lemma long_post_frames: "source_frames (run_with [sheet_long_post]) \<noteq> []"
  by (simp add: source_frames_def run_with_def sheet_long_post_def read_source_sheet_def from_values_def
      source_header_def)

lemma run_with_oracles:
  "\<forall>c. \<not> isl (pd_to_numeric (run_with sheets) c)"
  "\<forall>c c'. parse_datetime (run_with sheets) c \<noteq> None \<and> parse_datetime (run_with sheets) c' \<noteq> None \<longrightarrow>
             fst (the (parse_datetime (run_with sheets) c)) = fst (the (parse_datetime (run_with sheets) c'))"
  "\<not> open_raises (run_with sheets)"
  by (simp_all add: run_with_def)

theorem sync_after_consolidation_witness:
  "source_frames (run_with [sheet_long_post]) \<noteq> []
   \<and> set consolidation_columns \<subseteq> set (columns (concat_frames (source_frames (run_with [sheet_long_post]))))
   \<and> \<not> open_raises (run_with [sheet_long_post])
   \<and> (\<exists>pre post. events (process_data (run_with [sheet_long_post]))
          = pre @ sync_step (run_with [sheet_long_post]) (final_file (process_data (run_with [sheet_long_post]))) @ post
          \<and> Sync_call \<notin> set pre \<and> Sync_call \<notin> set post)
   \<and> length (final_file (process_data (run_with [sheet_long_post]))) = 4
   \<and> final_file (process_data (run_with [sheet_long_post])) ! 3 ! 14 = ''Hello''"
proof -
  have "\<exists>pre post. events (process_data (run_with [sheet_long_post]))
          = pre @ sync_step (run_with [sheet_long_post]) (final_file (process_data (run_with [sheet_long_post]))) @ post
          \<and> Sync_call \<notin> set pre \<and> Sync_call \<notin> set post
          \<and> raised (process_data (run_with [sheet_long_post])) = None"
    by (rule sync_after_consolidation [OF long_post_frames long_post_run(1) run_with_oracles])
  then have "\<exists>pre post. events (process_data (run_with [sheet_long_post]))
          = pre @ sync_step (run_with [sheet_long_post]) (final_file (process_data (run_with [sheet_long_post]))) @ post
          \<and> Sync_call \<notin> set pre \<and> Sync_call \<notin> set post"
    by blast
  then show ?thesis
    using long_post_frames long_post_run(1,2,3) run_with_oracles(3) by blast
qed


end
